theory Spec2Isabelle
  imports Main "HOL-Library.Sublist" "HOL-Library.AList"
begin

section \<open>Go values\<close>

text \<open>
  A Go \<^verbatim>\<open>string\<close> is a sequence of bytes, and \<^verbatim>\<open>len\<close> and slicing count bytes; HOL's
  \<^typ>\<open>string\<close> is a list of 8-bit characters, so the two agree. Wherever the
  program and its documentation say "character" of a string, a byte is meant.

  An \<^verbatim>\<open>error\<close> value is observed by the program only through its \<^verbatim>\<open>Error()\<close> message.
\<close>

datatype go_error = GoError string

fun Error :: "go_error \<Rightarrow> string" where
  "Error (GoError msg) = msg"

text \<open>
  A slice is either \<^verbatim>\<open>nil\<close> or holds a (possibly empty) sequence of elements. The two
  are told apart by \<^verbatim>\<open>encoding/json\<close>, which writes a nil slice as \<^verbatim>\<open>null\<close> and an empty
  one as \<^verbatim>\<open>[]\<close>. \<^verbatim>\<open>range\<close> visits the elements in order (none for a nil slice) and
  \<^verbatim>\<open>append\<close> always yields a non-nil slice.
\<close>

datatype 'a slice = NilSlice | Slice "'a list"

fun elems :: "'a slice \<Rightarrow> 'a list" where
  "elems NilSlice = []"
| "elems (Slice xs) = xs"

definition append_slice :: "'a slice \<Rightarrow> 'a \<Rightarrow> 'a slice" where
  "append_slice s x = Slice (elems s @ [x])"

text \<open>
  \<^verbatim>\<open>s[:n]\<close> on a string: the first \<^verbatim>\<open>n\<close> bytes, and a run-time panic (slice bounds out
  of range) when \<^verbatim>\<open>n > len(s)\<close>. \<open>None\<close> is the panic.
\<close>

definition slice_to :: "string \<Rightarrow> nat \<Rightarrow> string option" where
  "slice_to s n = (if n \<le> length s then Some (take n s) else None)"

text \<open>
  \<^verbatim>\<open>time.Time\<close>: the program only copies a time from a commit into its entry, so the
  model has to tell the values of the type apart and no more. A value is named by an
  integer, the zero value of the type by 0. Reading a time from JSON and writing it
  are parameters of the environment.
\<close>

datatype Time = Time int

definition zeroTime :: Time where
  "zeroTime = Time 0"

text \<open>A JSON value, as \<^verbatim>\<open>encoding/json\<close> reads and writes it. An object keeps its
  members in the order of the text, duplicates included.\<close>

datatype json =
    JNull
  | JBool bool
  | JNumber string
  | JString string
  | JArray "json list"
  | JObject "(string \<times> json) list"

section \<open>The data model of \<^verbatim>\<open>main.go\<close>\<close>

record Repository =
  Name :: string
  FullName :: string
  Description :: string
  HTMLURL :: string

text \<open>The anonymous struct types nested in \<^verbatim>\<open>Commit\<close> are named after their path.\<close>

record Commit_Commit_Author =
  Name :: string
  Email :: string
  Date :: Time

record Commit_Commit =
  Message :: string
  Author :: Commit_Commit_Author

record Commit =
  SHA :: string
  Commit :: Commit_Commit
  HTMLURL :: string

record CommitHistory =
  RepositoryName :: string
  CommitMessage :: string
  CommitSHA :: string
  CommitTime :: Time
  CommitURL :: string

definition githubAPIBase :: string where
  "githubAPIBase = ''https://api.github.com''"

definition username :: string where
  "username = ''develop-suda''"

text \<open>The zero values that \<^verbatim>\<open>var\<close> declarations and fresh slice elements start from.\<close>

definition zeroRepository :: Repository where
  "zeroRepository =
     \<lparr>Repository.Name = [], FullName = [], Description = [], Repository.HTMLURL = []\<rparr>"

definition zeroAuthor :: Commit_Commit_Author where
  "zeroAuthor = \<lparr>Commit_Commit_Author.Name = [], Email = [], Date = zeroTime\<rparr>"

definition zeroCommit :: Commit where
  "zeroCommit =
     \<lparr>SHA = [], Commit = \<lparr>Message = [], Author = zeroAuthor\<rparr>, Commit.HTMLURL = []\<rparr>"

section \<open>The environment: \<^verbatim>\<open>net/http\<close>, \<^verbatim>\<open>encoding/json\<close>, \<^verbatim>\<open>time\<close>\<close>

record Request =
  Method :: string
  URL :: string
  Header :: "(string \<times> string) list"

text \<open>
  \<^verbatim>\<open>http.Response\<close>: \<open>Status\<close> is the status text as received (\<^verbatim>\<open>"404 Not Found"\<close>),
  \<open>StatusCode\<close> the number, \<open>Body\<close> the bytes the body stream delivers.
\<close>

record Response =
  StatusCode :: int
  Status :: string
  Body :: string

record Client =
  Timeout :: int

definition Second :: int where
  "Second = 1000000000"

definition StatusOK :: int where
  "StatusOK = 200"

definition StatusInternalServerError :: int where
  "StatusInternalServerError = 500"

text \<open>
  What the program calls but does not define is a parameter of the model. \<open>'w\<close> is the
  state of everything outside the process (the network, the upstream service).
  \<^item> \<open>ParseURL\<close>: the URL check of \<^verbatim>\<open>http.NewRequest\<close>, \<open>Some err\<close> when it rejects the URL;
  \<^item> \<open>Do\<close>: \<^verbatim>\<open>client.Do\<close>, a transport error or a response, and the world afterwards;
  \<^item> \<open>ReadValue\<close>: the scanner of \<^verbatim>\<open>json.Decoder\<close>, which reads the first JSON value of
    the body or fails with a syntax error;
  \<^item> \<open>UnmarshalTime\<close>: \<^verbatim>\<open>time.Time\<close>'s \<^verbatim>\<open>UnmarshalJSON\<close> on a JSON value other than \<^verbatim>\<open>null\<close>;
  \<^item> \<open>TypeError\<close>: the \<^verbatim>\<open>json.UnmarshalTypeError\<close> for a JSON value that does not fit the
    Go destination named;
  \<^item> \<open>FormatTime\<close>: the text \<^verbatim>\<open>time.Time\<close>'s \<^verbatim>\<open>MarshalJSON\<close> writes.
\<close>

record 'w env =
  ParseURL :: "string \<Rightarrow> go_error option"
  Do :: "Client \<Rightarrow> Request \<Rightarrow> 'w \<Rightarrow> (go_error + Response) \<times> 'w"
  ReadValue :: "string \<Rightarrow> go_error + json"
  UnmarshalTime :: "json \<Rightarrow> go_error + Time"
  TypeError :: "json \<Rightarrow> string \<Rightarrow> go_error"
  FormatTime :: "Time \<Rightarrow> string"

text \<open>
  The state a request handler runs in: the world, and two traces of what the handler
  did to it, namely the requests handed to \<^verbatim>\<open>client.Do\<close> (oldest first) and the bytes
  printed to standard output.
\<close>

record 'w state =
  world :: 'w
  requests :: "Request list"
  stdout :: string

definition NewRequest :: "'w env \<Rightarrow> string \<Rightarrow> string \<Rightarrow> go_error + Request" where
  "NewRequest env method url =
     (case ParseURL env url of
        Some err \<Rightarrow> Inl err
      | None \<Rightarrow> Inr \<lparr>Method = method, URL = url, Header = []\<rparr>)"

definition Header_Set :: "Request \<Rightarrow> string \<Rightarrow> string \<Rightarrow> Request" where
  "Header_Set req k v = req\<lparr>Header := AList.update k v (Header req)\<rparr>"

definition client_Do ::
  "'w env \<Rightarrow> Client \<Rightarrow> Request \<Rightarrow> 'w state \<Rightarrow> (go_error + Response) \<times> 'w state" where
  "client_Do env client req s =
     (case Do env client req (world s) of
        (r, w') \<Rightarrow> (r, s\<lparr>world := w', requests := requests s @ [req]\<rparr>))"

definition Printf :: "string \<Rightarrow> 'w state \<Rightarrow> 'w state" where
  "Printf text s = s\<lparr>stdout := stdout s @ text\<rparr>"

section \<open>Decoding: \<^verbatim>\<open>json.NewDecoder(resp.Body).Decode\<close>\<close>

text \<open>
  \<^verbatim>\<open>encoding/json\<close> finds the struct field of an object key through the name in the
  field's \<^verbatim>\<open>json\<close> tag: an exact match, or else a match up to case folding. Folding
  puts ASCII letters in upper case and sends the two runes whose case orbit holds an
  ASCII letter to it (U+017F, bytes C5 BF, to \<^verbatim>\<open>S\<close>; U+212A, bytes E2 84 AA, to \<^verbatim>\<open>K\<close>).
  All tags of this program are ASCII, so no other rune can take part in a match, and
  other bytes are left as they are.
\<close>

definition toUpper :: "char \<Rightarrow> char" where
  "toUpper c =
     (let n = (of_char c :: nat) in if 97 \<le> n \<and> n \<le> 122 then char_of (n - 32) else c)"

fun foldName :: "string \<Rightarrow> string" where
  "foldName [] = []"
| "foldName [a] = [toUpper a]"
| "foldName [a, b] =
     (if a = CHR 0xC5 \<and> b = CHR 0xBF then [CHR ''S''] else [toUpper a, toUpper b])"
| "foldName (a # b # c # rest) =
     (if a = CHR 0xE2 \<and> b = CHR 0x84 \<and> c = CHR 0xAA then CHR ''K'' # foldName rest
      else if a = CHR 0xC5 \<and> b = CHR 0xBF then CHR ''S'' # foldName (c # rest)
      else toUpper a # foldName (b # c # rest))"

definition keyMatches :: "string \<Rightarrow> string \<Rightarrow> bool" where
  "keyMatches tag key = (key = tag \<or> foldName key = foldName tag)"

text \<open>
  A value that does not fit its destination is not fatal: the decoder keeps the first
  such \<^verbatim>\<open>UnmarshalTypeError\<close>, goes on, and returns it at the end. An error of a type's
  own \<^verbatim>\<open>UnmarshalJSON\<close> (here: of \<^verbatim>\<open>time.Time\<close>) stops the decoding at once.
\<close>

definition saveError :: "go_error option \<Rightarrow> go_error \<Rightarrow> go_error option" where
  "saveError saved err = (case saved of None \<Rightarrow> Some err | Some e \<Rightarrow> Some e)"

text \<open>Into a \<^verbatim>\<open>string\<close>: \<^verbatim>\<open>null\<close> leaves it as it is, a JSON string sets it.\<close>

fun storeString ::
  "'w env \<Rightarrow> string \<Rightarrow> json \<Rightarrow> string \<times> go_error option \<Rightarrow> string \<times> go_error option" where
  "storeString env dest JNull (cur, saved) = (cur, saved)"
| "storeString env dest (JString s) (cur, saved) = (s, saved)"
| "storeString env dest v (cur, saved) = (cur, saveError saved (TypeError env v dest))"

text \<open>Into a \<^verbatim>\<open>time.Time\<close>: \<^verbatim>\<open>null\<close> leaves it as it is, anything else is given to the
  type's own \<^verbatim>\<open>UnmarshalJSON\<close>.\<close>

fun storeTime :: "'w env \<Rightarrow> json \<Rightarrow> Time \<Rightarrow> go_error + Time" where
  "storeTime env JNull cur = Inr cur"
| "storeTime env v cur = UnmarshalTime env v"

text \<open>The members of an object are stored one after the other, in the order of the
  text; the first fatal error ends the run.\<close>

fun storeMembers ::
  "(string \<times> json \<Rightarrow> 'a \<Rightarrow> go_error + 'a) \<Rightarrow> (string \<times> json) list \<Rightarrow> 'a \<Rightarrow> go_error + 'a" where
  "storeMembers f [] acc = Inr acc"
| "storeMembers f (kv # kvs) acc =
     (case f kv acc of Inl err \<Rightarrow> Inl err | Inr acc' \<Rightarrow> storeMembers f kvs acc')"

text \<open>\<^verbatim>\<open>Repository\<close>: four string fields; a key that matches no tag is skipped.\<close>

fun storeRepositoryField ::
  "'w env \<Rightarrow> string \<times> json \<Rightarrow> Repository \<times> go_error option
     \<Rightarrow> go_error + Repository \<times> go_error option" where
  "storeRepositoryField env (key, v) (r, saved) =
     (if keyMatches ''name'' key then
        (case storeString env ''Repository.name'' v (Repository.Name r, saved) of
           (x, sv) \<Rightarrow> Inr (r\<lparr>Repository.Name := x\<rparr>, sv))
      else if keyMatches ''full_name'' key then
        (case storeString env ''Repository.full_name'' v (FullName r, saved) of
           (x, sv) \<Rightarrow> Inr (r\<lparr>FullName := x\<rparr>, sv))
      else if keyMatches ''description'' key then
        (case storeString env ''Repository.description'' v (Description r, saved) of
           (x, sv) \<Rightarrow> Inr (r\<lparr>Description := x\<rparr>, sv))
      else if keyMatches ''html_url'' key then
        (case storeString env ''Repository.html_url'' v (Repository.HTMLURL r, saved) of
           (x, sv) \<Rightarrow> Inr (r\<lparr>Repository.HTMLURL := x\<rparr>, sv))
      else Inr (r, saved))"

text \<open>Into a struct: \<^verbatim>\<open>null\<close> leaves it as it is, an object stores its members, any
  other value is a type error.\<close>

fun unmarshalRepository ::
  "'w env \<Rightarrow> json \<Rightarrow> Repository \<times> go_error option \<Rightarrow> go_error + Repository \<times> go_error option" where
  "unmarshalRepository env JNull (r, saved) = Inr (r, saved)"
| "unmarshalRepository env (JObject kvs) (r, saved) =
     storeMembers (storeRepositoryField env) kvs (r, saved)"
| "unmarshalRepository env v (r, saved) = Inr (r, saveError saved (TypeError env v ''Repository''))"

fun storeAuthorField ::
  "'w env \<Rightarrow> string \<times> json \<Rightarrow> Commit_Commit_Author \<times> go_error option
     \<Rightarrow> go_error + Commit_Commit_Author \<times> go_error option" where
  "storeAuthorField env (key, v) (a, saved) =
     (if keyMatches ''name'' key then
        (case storeString env ''Commit.commit.author.name'' v
                (Commit_Commit_Author.Name a, saved) of
           (x, sv) \<Rightarrow> Inr (a\<lparr>Commit_Commit_Author.Name := x\<rparr>, sv))
      else if keyMatches ''email'' key then
        (case storeString env ''Commit.commit.author.email'' v (Email a, saved) of
           (x, sv) \<Rightarrow> Inr (a\<lparr>Email := x\<rparr>, sv))
      else if keyMatches ''date'' key then
        (case storeTime env v (Date a) of
           Inl err \<Rightarrow> Inl err
         | Inr t \<Rightarrow> Inr (a\<lparr>Date := t\<rparr>, saved))
      else Inr (a, saved))"

fun unmarshalAuthor ::
  "'w env \<Rightarrow> json \<Rightarrow> Commit_Commit_Author \<times> go_error option
     \<Rightarrow> go_error + Commit_Commit_Author \<times> go_error option" where
  "unmarshalAuthor env JNull (a, saved) = Inr (a, saved)"
| "unmarshalAuthor env (JObject kvs) (a, saved) =
     storeMembers (storeAuthorField env) kvs (a, saved)"
| "unmarshalAuthor env v (a, saved) =
     Inr (a, saveError saved (TypeError env v ''Commit.commit.author''))"

fun storeCommitCommitField ::
  "'w env \<Rightarrow> string \<times> json \<Rightarrow> Commit_Commit \<times> go_error option
     \<Rightarrow> go_error + Commit_Commit \<times> go_error option" where
  "storeCommitCommitField env (key, v) (c, saved) =
     (if keyMatches ''message'' key then
        (case storeString env ''Commit.commit.message'' v (Message c, saved) of
           (x, sv) \<Rightarrow> Inr (c\<lparr>Message := x\<rparr>, sv))
      else if keyMatches ''author'' key then
        (case unmarshalAuthor env v (Author c, saved) of
           Inl err \<Rightarrow> Inl err
         | Inr (a, sv) \<Rightarrow> Inr (c\<lparr>Author := a\<rparr>, sv))
      else Inr (c, saved))"

fun unmarshalCommitCommit ::
  "'w env \<Rightarrow> json \<Rightarrow> Commit_Commit \<times> go_error option
     \<Rightarrow> go_error + Commit_Commit \<times> go_error option" where
  "unmarshalCommitCommit env JNull (c, saved) = Inr (c, saved)"
| "unmarshalCommitCommit env (JObject kvs) (c, saved) =
     storeMembers (storeCommitCommitField env) kvs (c, saved)"
| "unmarshalCommitCommit env v (c, saved) =
     Inr (c, saveError saved (TypeError env v ''Commit.commit''))"

fun storeCommitField ::
  "'w env \<Rightarrow> string \<times> json \<Rightarrow> Commit \<times> go_error option
     \<Rightarrow> go_error + Commit \<times> go_error option" where
  "storeCommitField env (key, v) (c, saved) =
     (if keyMatches ''sha'' key then
        (case storeString env ''Commit.sha'' v (SHA c, saved) of
           (x, sv) \<Rightarrow> Inr (c\<lparr>SHA := x\<rparr>, sv))
      else if keyMatches ''commit'' key then
        (case unmarshalCommitCommit env v (Commit c, saved) of
           Inl err \<Rightarrow> Inl err
         | Inr (cc, sv) \<Rightarrow> Inr (c\<lparr>Commit := cc\<rparr>, sv))
      else if keyMatches ''html_url'' key then
        (case storeString env ''Commit.html_url'' v (Commit.HTMLURL c, saved) of
           (x, sv) \<Rightarrow> Inr (c\<lparr>Commit.HTMLURL := x\<rparr>, sv))
      else Inr (c, saved))"

fun unmarshalCommit ::
  "'w env \<Rightarrow> json \<Rightarrow> Commit \<times> go_error option \<Rightarrow> go_error + Commit \<times> go_error option" where
  "unmarshalCommit env JNull (c, saved) = Inr (c, saved)"
| "unmarshalCommit env (JObject kvs) (c, saved) =
     storeMembers (storeCommitField env) kvs (c, saved)"
| "unmarshalCommit env v (c, saved) = Inr (c, saveError saved (TypeError env v ''Commit''))"

text \<open>
  Into a slice: the elements of an array are decoded in order, each into a fresh zero
  element. The saved type error is threaded through, a fatal error ends the run.
\<close>

fun unmarshalElems ::
  "(json \<Rightarrow> 'a \<times> go_error option \<Rightarrow> go_error + 'a \<times> go_error option) \<Rightarrow> 'a
     \<Rightarrow> json list \<Rightarrow> go_error option \<Rightarrow> go_error + 'a list \<times> go_error option" where
  "unmarshalElems f zero [] saved = Inr ([], saved)"
| "unmarshalElems f zero (v # vs) saved =
     (case f v (zero, saved) of
        Inl err \<Rightarrow> Inl err
      | Inr (x, sv) \<Rightarrow>
          (case unmarshalElems f zero vs sv of
             Inl err \<Rightarrow> Inl err
           | Inr (xs, sv') \<Rightarrow> Inr (x # xs, sv')))"

text \<open>
  Into a nil slice variable: \<^verbatim>\<open>null\<close> leaves it nil, an array (also the empty one)
  gives a non-nil slice, any other value is a type error. \<open>dest\<close> names the slice type.
\<close>

fun unmarshalSlice ::
  "'w env \<Rightarrow> string \<Rightarrow> (json \<Rightarrow> 'a \<times> go_error option \<Rightarrow> go_error + 'a \<times> go_error option) \<Rightarrow> 'a
     \<Rightarrow> json \<Rightarrow> go_error + 'a slice \<times> go_error option" where
  "unmarshalSlice env dest f zero JNull = Inr (NilSlice, None)"
| "unmarshalSlice env dest f zero (JArray vs) =
     (case unmarshalElems f zero vs None of
        Inl err \<Rightarrow> Inl err
      | Inr (xs, sv) \<Rightarrow> Inr (Slice xs, sv))"
| "unmarshalSlice env dest f zero v = Inr (NilSlice, Some (TypeError env v dest))"

text \<open>
  \<^verbatim>\<open>Decode\<close>: read one JSON value from the body, store it, and return the fatal error,
  else the saved type error, else nothing.
\<close>

definition Decode ::
  "'w env \<Rightarrow> (json \<Rightarrow> go_error + 'a slice \<times> go_error option) \<Rightarrow> string \<Rightarrow> go_error + 'a slice" where
  "Decode env unmarshal body =
     (case ReadValue env body of
        Inl err \<Rightarrow> Inl err
      | Inr v \<Rightarrow>
          (case unmarshal v of
             Inl err \<Rightarrow> Inl err
           | Inr (xs, Some err) \<Rightarrow> Inl err
           | Inr (xs, None) \<Rightarrow> Inr xs))"

definition decodeRepositories :: "'w env \<Rightarrow> string \<Rightarrow> go_error + Repository slice" where
  "decodeRepositories env body =
     Decode env (unmarshalSlice env ''[]Repository'' (unmarshalRepository env) zeroRepository) body"

definition decodeCommits :: "'w env \<Rightarrow> string \<Rightarrow> go_error + Commit slice" where
  "decodeCommits env body =
     Decode env (unmarshalSlice env ''[]Commit'' (unmarshalCommit env) zeroCommit) body"

section \<open>The upstream calls\<close>

text \<open>
  \<^verbatim>\<open>fetchRepositories\<close> and \<^verbatim>\<open>fetchCommits\<close>, statement by statement. Closing the body
  (\<^verbatim>\<open>defer resp.Body.Close()\<close>) has no effect the handler can observe and is left out.
  \<^verbatim>\<open>io.ReadAll\<close>'s own error is dropped by the source; what it read is \<open>Body\<close>.

  The repository holds a second copy of the program that logs through \<^verbatim>\<open>zerolog\<close>
  instead of \<^verbatim>\<open>fmt.Printf\<close>; its requests, status test, decoding, loops and answers are
  the same statements. The model follows \<^verbatim>\<open>main.go\<close>, whose only output is the line
  printed for a failed commit call.
\<close>

definition fetchRepositories ::
  "'w env \<Rightarrow> 'w state \<Rightarrow> (go_error + Repository slice) \<times> 'w state" where
  "fetchRepositories env s =
     (let url = githubAPIBase @ ''/users/'' @ username @ ''/repos?type=public&per_page=100'' in
      case NewRequest env ''GET'' url of
        Inl err \<Rightarrow> (Inl err, s)
      | Inr req0 \<Rightarrow>
          (let req = Header_Set req0 ''Accept'' ''application/vnd.github.v3+json'';
               client = \<lparr>Timeout = 10 * Second\<rparr>
           in case client_Do env client req s of
                (Inl err, s') \<Rightarrow> (Inl err, s')
              | (Inr resp, s') \<Rightarrow>
                  if StatusCode resp \<noteq> StatusOK then
                    (Inl (GoError (''GitHub API error: '' @ Status resp @ '' - '' @ Body resp)), s')
                  else
                    (case decodeRepositories env (Body resp) of
                       Inl err \<Rightarrow> (Inl err, s')
                     | Inr repos \<Rightarrow> (Inr repos, s'))))"

definition fetchCommits ::
  "'w env \<Rightarrow> string \<Rightarrow> 'w state \<Rightarrow> (go_error + Commit slice) \<times> 'w state" where
  "fetchCommits env repoFullName s =
     (let url = githubAPIBase @ ''/repos/'' @ repoFullName @ ''/commits?per_page=100'' in
      case NewRequest env ''GET'' url of
        Inl err \<Rightarrow> (Inl err, s)
      | Inr req0 \<Rightarrow>
          (let req = Header_Set req0 ''Accept'' ''application/vnd.github.v3+json'';
               client = \<lparr>Timeout = 10 * Second\<rparr>
           in case client_Do env client req s of
                (Inl err, s') \<Rightarrow> (Inl err, s')
              | (Inr resp, s') \<Rightarrow>
                  if StatusCode resp \<noteq> StatusOK then
                    (Inl (GoError (''GitHub API error: '' @ Status resp @ '' - '' @ Body resp)), s')
                  else
                    (case decodeCommits env (Body resp) of
                       Inl err \<Rightarrow> (Inl err, s')
                     | Inr commits \<Rightarrow> (Inr commits, s'))))"

section \<open>The handler \<^verbatim>\<open>getGitHistory\<close>\<close>

text \<open>
  The struct literal of the inner loop. \<^verbatim>\<open>commit.SHA[:7]\<close> is not guarded, so building
  the entry panics on a shorter hash: \<open>None\<close>.
\<close>

definition newCommitHistory :: "Repository \<Rightarrow> Commit \<Rightarrow> CommitHistory option" where
  "newCommitHistory repo commit =
     (case slice_to (SHA commit) 7 of
        None \<Rightarrow> None
      | Some short \<Rightarrow>
          Some \<lparr>RepositoryName = Repository.Name repo,
                CommitMessage = Message (Commit commit),
                CommitSHA = short,
                CommitTime = Date (Author (Commit commit)),
                CommitURL = Commit.HTMLURL commit\<rparr>)"

text \<open>The inner loop, \<^verbatim>\<open>for _, commit := range commits\<close>: a panic ends it.\<close>

fun appendCommits ::
  "Repository \<Rightarrow> Commit list \<Rightarrow> CommitHistory slice \<Rightarrow> CommitHistory slice option" where
  "appendCommits repo [] allCommits = Some allCommits"
| "appendCommits repo (commit # commits) allCommits =
     (case newCommitHistory repo commit of
        None \<Rightarrow> None
      | Some entry \<Rightarrow> appendCommits repo commits (append_slice allCommits entry))"

definition fetchErrorLine :: "Repository \<Rightarrow> go_error \<Rightarrow> string" where
  "fetchErrorLine repo err =
     ''Error fetching commits for '' @ Repository.Name repo @ '': '' @ Error err @ [CHR 0x0A]"

text \<open>The outer loop, \<^verbatim>\<open>for _, repo := range repos\<close>: a failed fetch is printed and
  skipped (\<^verbatim>\<open>continue\<close>), a panic of the inner loop ends the handler.\<close>

fun collectCommits ::
  "'w env \<Rightarrow> Repository list \<Rightarrow> CommitHistory slice \<Rightarrow> 'w state
     \<Rightarrow> CommitHistory slice option \<times> 'w state" where
  "collectCommits env [] allCommits s = (Some allCommits, s)"
| "collectCommits env (repo # repos) allCommits s =
     (case fetchCommits env (FullName repo) s of
        (Inl err, s') \<Rightarrow> collectCommits env repos allCommits (Printf (fetchErrorLine repo err) s')
      | (Inr commits, s') \<Rightarrow>
          (case appendCommits repo (elems commits) allCommits of
             None \<Rightarrow> (None, s')
           | Some allCommits' \<Rightarrow> collectCommits env repos allCommits' s'))"

text \<open>
  What the handler hands to \<^verbatim>\<open>c.JSON\<close>: the map \<^verbatim>\<open>gin.H{"error": ...}\<close> or the slice
  \<^verbatim>\<open>allCommits\<close>. The handler either calls \<^verbatim>\<open>c.JSON\<close> once or panics.
\<close>

datatype payload = H "(string \<times> string) list" | Commits "CommitHistory slice"

datatype reply = Panicked | JSON int payload

definition getGitHistory :: "'w env \<Rightarrow> 'w state \<Rightarrow> reply \<times> 'w state" where
  "getGitHistory env s =
     (case fetchRepositories env s of
        (Inl err, s') \<Rightarrow> (JSON StatusInternalServerError (H [(''error'', Error err)]), s')
      | (Inr repos, s') \<Rightarrow>
          (case collectCommits env (elems repos) NilSlice s' of
             (None, s'') \<Rightarrow> (Panicked, s'')
           | (Some allCommits, s'') \<Rightarrow> (JSON StatusOK (Commits allCommits), s'')))"

section \<open>The endpoint \<^verbatim>\<open>GET /api/git-history\<close>\<close>

text \<open>
  \<^verbatim>\<open>c.JSON\<close> writes the status and the \<^verbatim>\<open>json.Marshal\<close> of its argument: a struct as an
  object of its tagged fields in declaration order, a map as an object, a slice as an
  array, and a nil slice as \<^verbatim>\<open>null\<close>.
\<close>

definition marshalCommitHistory :: "'w env \<Rightarrow> CommitHistory \<Rightarrow> json" where
  "marshalCommitHistory env e =
     JObject [(''repository_name'', JString (RepositoryName e)),
              (''commit_message'', JString (CommitMessage e)),
              (''commit_sha'', JString (CommitSHA e)),
              (''commit_time'', JString (FormatTime env (CommitTime e))),
              (''commit_url'', JString (CommitURL e))]"

fun marshalPayload :: "'w env \<Rightarrow> payload \<Rightarrow> json" where
  "marshalPayload env (H kvs) = JObject (map (\<lambda>(k, v). (k, JString v)) kvs)"
| "marshalPayload env (Commits NilSlice) = JNull"
| "marshalPayload env (Commits (Slice xs)) = JArray (map (marshalCommitHistory env) xs)"

text \<open>
  The router of \<^verbatim>\<open>main\<close> is \<^verbatim>\<open>gin.Default()\<close>: its recovery middleware catches a panic of
  the handler and answers 500 with no body, as the comment in \<^verbatim>\<open>main\<close> says.
\<close>

record http_reply =
  code :: int
  content :: "json option"

definition serveGitHistory :: "'w env \<Rightarrow> 'w state \<Rightarrow> http_reply \<times> 'w state" where
  "serveGitHistory env s =
     (case getGitHistory env s of
        (Panicked, s') \<Rightarrow> (\<lparr>code = StatusInternalServerError, content = None\<rparr>, s')
      | (JSON c p, s') \<Rightarrow> (\<lparr>code = c, content = Some (marshalPayload env p)\<rparr>, s'))"

section \<open>Vocabulary of the properties\<close>

text \<open>
  The outcomes of the commit calls of a run, in the order the outer loop makes them:
  one per repository, up to the end of the list or the panic of an entry.
\<close>

fun commitOutcomes ::
  "'w env \<Rightarrow> Repository list \<Rightarrow> 'w state \<Rightarrow> (go_error + Commit slice) list" where
  "commitOutcomes env [] s = []"
| "commitOutcomes env (repo # repos) s =
     (case fetchCommits env (FullName repo) s of
        (Inl err, s') \<Rightarrow> Inl err # commitOutcomes env repos (Printf (fetchErrorLine repo err) s')
      | (Inr commits, s') \<Rightarrow>
          Inr commits #
            (if list_all (\<lambda>c. 7 \<le> length (SHA c)) (elems commits)
             then commitOutcomes env repos s' else []))"

text \<open>The commits a call returned: none when it failed.\<close>

fun returnedCommits :: "go_error + Commit slice \<Rightarrow> Commit list" where
  "returnedCommits (Inl err) = []"
| "returnedCommits (Inr commits) = elems commits"

text \<open>The entry of one commit of one repository, for a hash of at least 7 bytes.\<close>

definition entryOf :: "Repository \<Rightarrow> Commit \<Rightarrow> CommitHistory" where
  "entryOf repo commit =
     \<lparr>RepositoryName = Repository.Name repo,
      CommitMessage = Message (Commit commit),
      CommitSHA = take 7 (SHA commit),
      CommitTime = Date (Author (Commit commit)),
      CommitURL = Commit.HTMLURL commit\<rparr>"

text \<open>The block of entries of one repository: its commits in the order returned.\<close>

definition block :: "Repository \<times> (go_error + Commit slice) \<Rightarrow> CommitHistory list" where
  "block p = map (entryOf (fst p)) (returnedCommits (snd p))"

definition shasLongEnough :: "(go_error + Commit slice) list \<Rightarrow> bool" where
  "shasLongEnough outcomes =
     list_all (\<lambda>out. list_all (\<lambda>c. 7 \<le> length (SHA c)) (returnedCommits out)) outcomes"

text \<open>A slice after more elements were appended to it: the same slice when there are
  none, a non-nil slice otherwise.\<close>

definition extend :: "'a slice \<Rightarrow> 'a list \<Rightarrow> 'a slice" where
  "extend s xs = (if xs = [] then s else Slice (elems s @ xs))"

text \<open>The two upstream URLs, the request built for a URL, the client, and the error
  made from a response that is not 200.\<close>

definition reposURL :: string where
  "reposURL = ''https://api.github.com/users/develop-suda/repos?type=public&per_page=100''"

definition commitsURL :: "string \<Rightarrow> string" where
  "commitsURL repoFullName =
     ''https://api.github.com/repos/'' @ repoFullName @ ''/commits?per_page=100''"

definition apiRequest :: "string \<Rightarrow> Request" where
  "apiRequest url =
     \<lparr>Method = ''GET'', URL = url, Header = [(''Accept'', ''application/vnd.github.v3+json'')]\<rparr>"

definition apiClient :: Client where
  "apiClient = \<lparr>Timeout = 10 * Second\<rparr>"

definition apiError :: "Response \<Rightarrow> go_error" where
  "apiError resp = GoError (''GitHub API error: '' @ Status resp @ '' - '' @ Body resp)"

subsection \<open>Values that fit the Go types\<close>

text \<open>
  A JSON value fits a destination when storing it raises no error: \<^verbatim>\<open>null\<close> fits
  everything, a JSON string fits a \<^verbatim>\<open>string\<close>, what \<^verbatim>\<open>time.Time\<close> accepts fits a
  \<^verbatim>\<open>time.Time\<close>, an object fits a struct when each member whose key matches a tag fits
  that field (other members are not looked at, and no member has to be there), and an
  array fits a slice when each element fits. A JSON array of objects with members of
  the expected kinds is the main case.
\<close>

fun fitsString :: "json \<Rightarrow> bool" where
  "fitsString JNull = True"
| "fitsString (JString s) = True"
| "fitsString v = False"

fun fitsTime :: "'w env \<Rightarrow> json \<Rightarrow> bool" where
  "fitsTime env JNull = True"
| "fitsTime env v = (case UnmarshalTime env v of Inl err \<Rightarrow> False | Inr t \<Rightarrow> True)"

definition fitsRepositoryMember :: "string \<times> json \<Rightarrow> bool" where
  "fitsRepositoryMember kv =
     (if keyMatches ''name'' (fst kv) \<or> keyMatches ''full_name'' (fst kv)
         \<or> keyMatches ''description'' (fst kv) \<or> keyMatches ''html_url'' (fst kv)
      then fitsString (snd kv) else True)"

fun fitsRepository :: "json \<Rightarrow> bool" where
  "fitsRepository JNull = True"
| "fitsRepository (JObject kvs) = list_all fitsRepositoryMember kvs"
| "fitsRepository v = False"

definition fitsAuthorMember :: "'w env \<Rightarrow> string \<times> json \<Rightarrow> bool" where
  "fitsAuthorMember env kv =
     (if keyMatches ''name'' (fst kv) \<or> keyMatches ''email'' (fst kv) then fitsString (snd kv)
      else if keyMatches ''date'' (fst kv) then fitsTime env (snd kv)
      else True)"

fun fitsAuthor :: "'w env \<Rightarrow> json \<Rightarrow> bool" where
  "fitsAuthor env JNull = True"
| "fitsAuthor env (JObject kvs) = list_all (fitsAuthorMember env) kvs"
| "fitsAuthor env v = False"

definition fitsCommitCommitMember :: "'w env \<Rightarrow> string \<times> json \<Rightarrow> bool" where
  "fitsCommitCommitMember env kv =
     (if keyMatches ''message'' (fst kv) then fitsString (snd kv)
      else if keyMatches ''author'' (fst kv) then fitsAuthor env (snd kv)
      else True)"

fun fitsCommitCommit :: "'w env \<Rightarrow> json \<Rightarrow> bool" where
  "fitsCommitCommit env JNull = True"
| "fitsCommitCommit env (JObject kvs) = list_all (fitsCommitCommitMember env) kvs"
| "fitsCommitCommit env v = False"

definition fitsCommitMember :: "'w env \<Rightarrow> string \<times> json \<Rightarrow> bool" where
  "fitsCommitMember env kv =
     (if keyMatches ''sha'' (fst kv) then fitsString (snd kv)
      else if keyMatches ''commit'' (fst kv) then fitsCommitCommit env (snd kv)
      else if keyMatches ''html_url'' (fst kv) then fitsString (snd kv)
      else True)"

fun fitsCommit :: "'w env \<Rightarrow> json \<Rightarrow> bool" where
  "fitsCommit env JNull = True"
| "fitsCommit env (JObject kvs) = list_all (fitsCommitMember env) kvs"
| "fitsCommit env v = False"

fun fitsSlice :: "(json \<Rightarrow> bool) \<Rightarrow> json \<Rightarrow> bool" where
  "fitsSlice fits JNull = True"
| "fitsSlice fits (JArray vs) = list_all fits vs"
| "fitsSlice fits v = False"

text \<open>An object has a member for the field tagged \<open>tag\<close>.\<close>

definition hasMember :: "string \<Rightarrow> (string \<times> json) list \<Rightarrow> bool" where
  "hasMember tag kvs = list_ex (\<lambda>kv. keyMatches tag (fst kv)) kvs"

text \<open>A decoding step failed: it stopped with an error or has a type error saved.\<close>

definition failed :: "go_error + 'a \<times> go_error option \<Rightarrow> bool" where
  "failed r = (case r of Inl err \<Rightarrow> True | Inr (x, sv) \<Rightarrow> sv \<noteq> None)"

subsection \<open>Test doubles of the environment\<close>

text \<open>
  An upstream that answers by a table from URL to outcome (a transport error for a URL
  not in it) and moves the world by \<open>tick\<close> at every call, with a scanner that knows the
  JSON value of the texts in a second table and a clock of two instants.
\<close>

definition stubEnv ::
  "('w \<Rightarrow> 'w) \<Rightarrow> (string \<times> (go_error + Response)) list \<Rightarrow> (string \<times> json) list \<Rightarrow> 'w env" where
  "stubEnv tick routes texts =
     \<lparr>ParseURL = (\<lambda>url. None),
      Do = (\<lambda>client req w.
              (case map_of routes (URL req) of
                 Some r \<Rightarrow> r
               | None \<Rightarrow> Inl (GoError ''connection refused''), tick w)),
      ReadValue = (\<lambda>body.
              case map_of texts body of
                Some v \<Rightarrow> Inr v
              | None \<Rightarrow> Inl (GoError ''invalid character'')),
      UnmarshalTime = (\<lambda>v.
              case v of
                JString s \<Rightarrow>
                  if s = ''0001-01-01T00:00:01Z'' then Inr (Time 1000000000)
                  else Inl (GoError ''cannot parse time'')
              | _ \<Rightarrow> Inl (GoError ''Time.UnmarshalJSON: input is not a JSON string'')),
      TypeError = (\<lambda>v dest. GoError (''json: cannot unmarshal into '' @ dest)),
      FormatTime = (\<lambda>t. if t = Time 1000000000 then ''0001-01-01T00:00:01Z''
                        else ''0001-01-01T00:00:00Z'')\<rparr>"

definition start :: "nat state" where
  "start = \<lparr>world = 0, requests = [], stdout = []\<rparr>"

definition okResponse :: "string \<Rightarrow> Response" where
  "okResponse body = \<lparr>StatusCode = 200, Status = ''200 OK'', Body = body\<rparr>"

definition ok :: "string \<Rightarrow> go_error + Response" where
  "ok body = Inr (okResponse body)"

definition notFoundResponse :: Response where
  \<open>notFoundResponse =
     \<lparr>StatusCode = 404, Status = ''404 Not Found'', Body = ''{"message":"Not Found"}''\<rparr>\<close>

definition notFound :: "go_error + Response" where
  "notFound = Inr notFoundResponse"

text \<open>The listing is the empty array.\<close>

definition emptyEnv :: "nat env" where
  "emptyEnv = stubEnv Suc [(reposURL, ok ''[]'')] [(''[]'', JArray [])]"

text \<open>The listing is answered 404.\<close>

definition downEnv :: "nat env" where
  "downEnv = stubEnv Suc [(reposURL, notFound)] []"

text \<open>The listing is answered 203 with a body that would decode.\<close>

definition proxyResponse :: Response where
  "proxyResponse =
     \<lparr>StatusCode = 203, Status = ''203 Non-Authoritative Information'', Body = ''[]''\<rparr>"

definition proxyEnv :: "nat env" where
  "proxyEnv = stubEnv Suc [(reposURL, Inr proxyResponse)] [(''[]'', JArray [])]"

text \<open>Two repositories; the first has one commit, the commit call of the second is
  answered 404.\<close>

definition repoA :: Repository where
  "repoA = \<lparr>Repository.Name = ''a'', FullName = ''u/a'', Description = [],
            Repository.HTMLURL = []\<rparr>"

definition repoB :: Repository where
  "repoB = \<lparr>Repository.Name = ''b'', FullName = ''u/b'', Description = [],
            Repository.HTMLURL = []\<rparr>"

definition twoReposText :: string where
  \<open>twoReposText = ''[{"name":"a","full_name":"u/a"},{"name":"b","full_name":"u/b"}]''\<close>

definition twoReposValue :: json where
  "twoReposValue =
     JArray [JObject [(''name'', JString ''a''), (''full_name'', JString ''u/a'')],
             JObject [(''name'', JString ''b''), (''full_name'', JString ''u/b'')]]"

definition initCommit :: Commit where
  "initCommit =
     \<lparr>SHA = ''1234567890abcdef1234567890abcdef12345678'',
      Commit = \<lparr>Message = ''init'',
                Author = \<lparr>Commit_Commit_Author.Name = [], Email = [],
                          Date = Time 1000000000\<rparr>\<rparr>,
      Commit.HTMLURL = []\<rparr>"

definition oneCommitText :: string where
  \<open>oneCommitText = ''[{"sha":"1234567890abcdef1234567890abcdef12345678","commit":{"message":"init","author":{"date":"0001-01-01T00:00:01Z"}}}]''\<close>

definition oneCommitValue :: json where
  "oneCommitValue =
     JArray [JObject [(''sha'', JString ''1234567890abcdef1234567890abcdef12345678''),
                      (''commit'', JObject [(''message'', JString ''init''),
                          (''author'', JObject [(''date'', JString ''0001-01-01T00:00:01Z'')])])]]"

definition initEntry :: CommitHistory where
  "initEntry =
     \<lparr>RepositoryName = ''a'', CommitMessage = ''init'', CommitSHA = ''1234567'',
      CommitTime = Time 1000000000, CommitURL = []\<rparr>"

definition scenarioEnv :: "nat env" where
  "scenarioEnv =
     stubEnv Suc
       [(reposURL, ok twoReposText), (commitsURL ''u/a'', ok oneCommitText),
        (commitsURL ''u/b'', notFound)]
       [(twoReposText, twoReposValue), (oneCommitText, oneCommitValue)]"

text \<open>The same upstream behind another world, with the listing sent as another text
  of the same value.\<close>

definition twoReposText' :: string where
  \<open>twoReposText' = ''[{"full_name":"u/a","name":"a"},{"full_name":"u/b","name":"b"}]''\<close>

definition twoReposValue' :: json where
  "twoReposValue' =
     JArray [JObject [(''full_name'', JString ''u/a''), (''name'', JString ''a'')],
             JObject [(''full_name'', JString ''u/b''), (''name'', JString ''b'')]]"

definition scenarioEnv' :: "bool env" where
  "scenarioEnv' =
     stubEnv Not
       [(reposURL, ok twoReposText'), (commitsURL ''u/a'', ok oneCommitText),
        (commitsURL ''u/b'', notFound)]
       [(twoReposText', twoReposValue'), (oneCommitText, oneCommitValue)]"

definition start' :: "bool state" where
  "start' = \<lparr>world = True, requests = [apiRequest ''https://example.org/''],
             stdout = ''Server starting on :8080''\<rparr>"

text \<open>One repository whose only commit has a hash of three bytes.\<close>

definition oneRepoText :: string where
  \<open>oneRepoText = ''[{"name":"a","full_name":"u/a"}]''\<close>

definition oneRepoValue :: json where
  "oneRepoValue = JArray [JObject [(''name'', JString ''a''), (''full_name'', JString ''u/a'')]]"

definition shortCommit :: Commit where
  "shortCommit =
     \<lparr>SHA = ''abc'', Commit = \<lparr>Message = ''init'', Author = zeroAuthor\<rparr>, Commit.HTMLURL = []\<rparr>"

definition shortCommitText :: string where
  \<open>shortCommitText = ''[{"sha":"abc","commit":{"message":"init"}}]''\<close>

definition shortCommitValue :: json where
  "shortCommitValue =
     JArray [JObject [(''sha'', JString ''abc''),
                      (''commit'', JObject [(''message'', JString ''init'')])]]"

definition shortShaEnv :: "nat env" where
  "shortShaEnv =
     stubEnv Suc
       [(reposURL, ok oneRepoText), (commitsURL ''u/a'', ok shortCommitText)]
       [(oneRepoText, oneRepoValue), (shortCommitText, shortCommitValue)]"

text \<open>A scanner for three texts: the listing of two repositories, two empty objects,
  and a commit with a date that is no time.\<close>

definition badDateText :: string where
  \<open>badDateText = ''[{"commit":{"author":{"date":"yesterday"}}}]''\<close>

definition badDateValue :: json where
  "badDateValue =
     JArray [JObject [(''commit'', JObject [(''author'',
       JObject [(''date'', JString ''yesterday'')])])]]"

definition decodeEnv :: "nat env" where
  "decodeEnv =
     stubEnv Suc []
       [(twoReposText, twoReposValue), (''[{},{}]'', JArray [JObject [], JObject []]),
        (badDateText, badDateValue)]"

text \<open>
  Two repositories listed \<^verbatim>\<open>b\<close> before \<^verbatim>\<open>a\<close>, each with two commits returned newest
  first, dated so that the four commits are in order of time neither within the
  listing nor against it; and the same upstream with the one commit of three hash
  bytes in place of the commits of \<^verbatim>\<open>a\<close>.
\<close>

definition baReposText :: string where
  \<open>baReposText = ''[{"name":"b","full_name":"u/b"},{"name":"a","full_name":"u/a"}]''\<close>

definition baReposValue :: json where
  "baReposValue =
     JArray [JObject [(''name'', JString ''b''), (''full_name'', JString ''u/b'')],
             JObject [(''name'', JString ''a''), (''full_name'', JString ''u/a'')]]"

definition commitAt :: "string \<Rightarrow> string \<Rightarrow> Time \<Rightarrow> Commit" where
  "commitAt sha msg t =
     \<lparr>SHA = sha,
      Commit = \<lparr>Message = msg,
                Author = \<lparr>Commit_Commit_Author.Name = [], Email = [], Date = t\<rparr>\<rparr>,
      Commit.HTMLURL = []\<rparr>"

definition commitValue :: "string \<Rightarrow> string \<Rightarrow> string \<Rightarrow> json" where
  "commitValue sha msg date =
     JObject [(''sha'', JString sha),
              (''commit'', JObject [(''message'', JString msg),
                  (''author'', JObject [(''date'', JString date)])])]"

definition bNew :: Commit where
  "bNew = commitAt ''b2b2b2b2b2b2b2b2b2b2b2b2b2b2b2b2b2b2b2b2'' ''b new'' (Time 3000000000)"

definition bOld :: Commit where
  "bOld = commitAt ''b1b1b1b1b1b1b1b1b1b1b1b1b1b1b1b1b1b1b1b1'' ''b old'' (Time 1000000000)"

definition aNew :: Commit where
  "aNew = commitAt ''a2a2a2a2a2a2a2a2a2a2a2a2a2a2a2a2a2a2a2a2'' ''a new'' (Time 4000000000)"

definition aOld :: Commit where
  "aOld = commitAt ''a1a1a1a1a1a1a1a1a1a1a1a1a1a1a1a1a1a1a1a1'' ''a old'' (Time 2000000000)"

definition bCommitsText :: string where
  \<open>bCommitsText = ''[{"sha":"b2b2b2b2b2b2b2b2b2b2b2b2b2b2b2b2b2b2b2b2","commit":{"message":"b new","author":{"date":"0001-01-01T00:00:03Z"}}},{"sha":"b1b1b1b1b1b1b1b1b1b1b1b1b1b1b1b1b1b1b1b1","commit":{"message":"b old","author":{"date":"0001-01-01T00:00:01Z"}}}]''\<close>

definition bCommitsValue :: json where
  "bCommitsValue =
     JArray [commitValue ''b2b2b2b2b2b2b2b2b2b2b2b2b2b2b2b2b2b2b2b2'' ''b new'' ''0001-01-01T00:00:03Z'',
             commitValue ''b1b1b1b1b1b1b1b1b1b1b1b1b1b1b1b1b1b1b1b1'' ''b old'' ''0001-01-01T00:00:01Z'']"

definition aCommitsText :: string where
  \<open>aCommitsText = ''[{"sha":"a2a2a2a2a2a2a2a2a2a2a2a2a2a2a2a2a2a2a2a2","commit":{"message":"a new","author":{"date":"0001-01-01T00:00:04Z"}}},{"sha":"a1a1a1a1a1a1a1a1a1a1a1a1a1a1a1a1a1a1a1a1","commit":{"message":"a old","author":{"date":"0001-01-01T00:00:02Z"}}}]''\<close>

definition aCommitsValue :: json where
  "aCommitsValue =
     JArray [commitValue ''a2a2a2a2a2a2a2a2a2a2a2a2a2a2a2a2a2a2a2a2'' ''a new'' ''0001-01-01T00:00:04Z'',
             commitValue ''a1a1a1a1a1a1a1a1a1a1a1a1a1a1a1a1a1a1a1a1'' ''a old'' ''0001-01-01T00:00:02Z'']"

definition fourSeconds :: "json \<Rightarrow> go_error + Time" where
  "fourSeconds v =
     (case v of
        JString s \<Rightarrow>
          (case map_of [(''0001-01-01T00:00:01Z'', Time 1000000000),
                        (''0001-01-01T00:00:02Z'', Time 2000000000),
                        (''0001-01-01T00:00:03Z'', Time 3000000000),
                        (''0001-01-01T00:00:04Z'', Time 4000000000)] s of
             Some t \<Rightarrow> Inr t
           | None \<Rightarrow> Inl (GoError ''cannot parse time''))
      | _ \<Rightarrow> Inl (GoError ''Time.UnmarshalJSON: input is not a JSON string''))"

definition orderEnv :: "nat env" where
  "orderEnv =
     (stubEnv Suc
        [(reposURL, ok baReposText), (commitsURL ''u/b'', ok bCommitsText),
         (commitsURL ''u/a'', ok aCommitsText)]
        [(baReposText, baReposValue), (bCommitsText, bCommitsValue),
         (aCommitsText, aCommitsValue)])
     \<lparr>UnmarshalTime := fourSeconds\<rparr>"

definition lateShortEnv :: "nat env" where
  "lateShortEnv =
     (stubEnv Suc
        [(reposURL, ok baReposText), (commitsURL ''u/b'', ok bCommitsText),
         (commitsURL ''u/a'', ok shortCommitText)]
        [(baReposText, baReposValue), (bCommitsText, bCommitsValue),
         (shortCommitText, shortCommitValue)])
     \<lparr>UnmarshalTime := fourSeconds\<rparr>"

definition notFoundError :: go_error where
  \<open>notFoundError = GoError ''GitHub API error: 404 Not Found - {"message":"Not Found"}''\<close>

section \<open>The loops, in closed form\<close>

lemma newCommitHistory_eq:
  "newCommitHistory repo commit =
     (if 7 \<le> length (SHA commit) then Some (entryOf repo commit) else None)"
  by (simp add: newCommitHistory_def slice_to_def entryOf_def)

lemma extend_Nil [simp]: "extend s [] = s"
  by (simp add: extend_def)

lemma elems_extend [simp]: "elems (extend s xs) = elems s @ xs"
  by (simp add: extend_def)

lemma extend_append_slice: "extend (append_slice s x) xs = extend s (x # xs)"
  by (simp add: extend_def append_slice_def)

lemma extend_extend: "extend (extend s xs) ys = extend s (xs @ ys)"
  by (simp add: extend_def)

lemma appendCommits_eq:
  "appendCommits repo commits acc =
     (if list_all (\<lambda>c. 7 \<le> length (SHA c)) commits
      then Some (extend acc (map (entryOf repo) commits)) else None)"
  by (induction commits arbitrary: acc)
     (simp_all add: newCommitHistory_eq extend_append_slice)

lemma shasLongEnough_Nil [simp]: "shasLongEnough []"
  by (simp add: shasLongEnough_def)

lemma shasLongEnough_Cons [simp]:
  "shasLongEnough (out # outs) =
     (list_all (\<lambda>c. 7 \<le> length (SHA c)) (returnedCommits out) \<and> shasLongEnough outs)"
  by (simp add: shasLongEnough_def)

lemma block_Inl [simp]: "block (repo, Inl err) = []"
  by (simp add: block_def)

lemma block_Inr [simp]: "block (repo, Inr commits) = map (entryOf repo) (elems commits)"
  by (simp add: block_def)

lemma collectCommits_eq:
  "fst (collectCommits env repos acc s) =
     (if shasLongEnough (commitOutcomes env repos s)
      then Some (extend acc (concat (map block (zip repos (commitOutcomes env repos s)))))
      else None)"
proof (induction repos arbitrary: acc s)
  case Nil
  show ?case by simp
next
  case (Cons repo repos)
  obtain r s' where f: "fetchCommits env (FullName repo) s = (r, s')"
    by (cases "fetchCommits env (FullName repo) s")
  show ?case
  proof (cases r)
    case (Inl err)
    with f Cons show ?thesis by simp
  next
    case (Inr commits)
    with f Cons show ?thesis
      by (simp add: appendCommits_eq extend_extend)
  qed
qed

lemma length_commitOutcomes:
  "shasLongEnough (commitOutcomes env repos s) \<Longrightarrow>
     length (commitOutcomes env repos s) = length repos"
proof (induction repos arbitrary: s)
  case Nil
  show ?case by simp
next
  case (Cons repo repos)
  obtain r s' where f: "fetchCommits env (FullName repo) s = (r, s')"
    by (cases "fetchCommits env (FullName repo) s")
  show ?case
  proof (cases r)
    case (Inl err)
    with f Cons show ?thesis by simp
  next
    case (Inr commits)
    with f Cons show ?thesis by (simp split: if_splits)
  qed
qed

lemma getGitHistory_listed:
  assumes "fst (fetchRepositories env s) = Inr repos"
  shows "fst (getGitHistory env s) =
     (if shasLongEnough (commitOutcomes env (elems repos) (snd (fetchRepositories env s)))
      then JSON StatusOK (Commits (extend NilSlice
             (concat (map block (zip (elems repos)
                (commitOutcomes env (elems repos) (snd (fetchRepositories env s))))))))
      else Panicked)"
proof -
  obtain s1 where l: "fetchRepositories env s = (Inr repos, s1)"
    using assms by (cases "fetchRepositories env s") simp
  obtain r s2 where c: "collectCommits env (elems repos) NilSlice s1 = (r, s2)"
    by (cases "collectCommits env (elems repos) NilSlice s1")
  have "r = fst (collectCommits env (elems repos) NilSlice s1)" using c by simp
  then have r: "r = (if shasLongEnough (commitOutcomes env (elems repos) s1)
      then Some (extend NilSlice
             (concat (map block (zip (elems repos) (commitOutcomes env (elems repos) s1)))))
      else None)"
    by (simp only: collectCommits_eq)
  show ?thesis using l c by (simp add: getGitHistory_def r)
qed

lemma getGitHistory_failed:
  assumes "fst (fetchRepositories env s) = Inl err"
  shows "getGitHistory env s =
     (JSON StatusInternalServerError (H [(''error'', Error err)]), snd (fetchRepositories env s))"
  using assms by (cases "fetchRepositories env s") (simp add: getGitHistory_def)

lemma serve_code:
  "code (fst (serveGitHistory env s)) =
     (case fst (getGitHistory env s) of Panicked \<Rightarrow> StatusInternalServerError | JSON c p \<Rightarrow> c)"
  by (cases "getGitHistory env s") (simp add: serveGitHistory_def split: reply.splits)

lemma serve_content:
  "content (fst (serveGitHistory env s)) =
     (case fst (getGitHistory env s) of Panicked \<Rightarrow> None
      | JSON c p \<Rightarrow> Some (marshalPayload env p))"
  by (cases "getGitHistory env s") (simp add: serveGitHistory_def split: reply.splits)

lemma fetchRepositories_requests:
  "requests (snd (fetchRepositories env s)) = requests s \<or>
   requests (snd (fetchRepositories env s)) = requests s @ [apiRequest reposURL]"
  by (auto simp: fetchRepositories_def NewRequest_def client_Do_def Header_Set_def
        apiRequest_def reposURL_def githubAPIBase_def username_def Let_def
      split: option.splits sum.splits prod.splits)

lemma fetchRepositories_stdout:
  "stdout (snd (fetchRepositories env s)) = stdout s"
  by (auto simp: fetchRepositories_def NewRequest_def client_Do_def Let_def
      split: option.splits sum.splits prod.splits)

lemma fetchRepositories_responded:
  assumes "ParseURL env reposURL = None"
      and "Do env apiClient (apiRequest reposURL) (world s) = (Inr resp, w)"
  shows "fst (fetchRepositories env s) =
     (if StatusCode resp = 200 then decodeRepositories env (Body resp) else Inl (apiError resp))"
  using assms
  by (auto simp: fetchRepositories_def NewRequest_def client_Do_def Header_Set_def
        apiRequest_def apiClient_def apiError_def reposURL_def githubAPIBase_def username_def
        Let_def StatusOK_def
      split: sum.splits)

lemma fetchCommits_responded:
  assumes "ParseURL env (commitsURL name) = None"
      and "Do env apiClient (apiRequest (commitsURL name)) (world s) = (Inr resp, w)"
  shows "fst (fetchCommits env name s) =
     (if StatusCode resp = 200 then decodeCommits env (Body resp) else Inl (apiError resp))"
  using assms
  by (auto simp: fetchCommits_def NewRequest_def client_Do_def Header_Set_def
        apiRequest_def apiClient_def apiError_def commitsURL_def githubAPIBase_def
        Let_def StatusOK_def
      split: sum.splits)

lemma sum_successes:
  "sum_list [length (elems commits). Inr commits \<leftarrow> outs] =
     sum_list (map (\<lambda>out. length (returnedCommits out)) outs)"
proof (induction outs)
  case Nil
  show ?case by simp
next
  case (Cons out outs)
  then show ?case by (cases out) simp_all
qed

lemma length_blocks:
  "length repos = length outs \<Longrightarrow>
     length (concat (map block (zip repos outs))) =
       sum_list (map (\<lambda>out. length (returnedCommits out)) outs)"
proof (induction repos outs rule: list_induct2)
  case Nil
  show ?case by simp
next
  case (Cons repo repos out outs)
  then show ?case by (simp add: block_def)
qed

section \<open>Decoding, in closed form\<close>

lemma failed_simps [simp]:
  "failed (Inl err) = True"
  "failed (Inr (x, sv)) = (sv \<noteq> None)"
  by (simp_all add: failed_def)

lemma storeMembers_failed:
  assumes "\<And>kv acc sv. failed (f kv (acc, sv)) = (sv \<noteq> None \<or> \<not> fits kv)"
  shows "failed (storeMembers f kvs (acc, sv)) = (sv \<noteq> None \<or> \<not> list_all fits kvs)"
proof (induction kvs arbitrary: acc sv)
  case Nil
  show ?case by simp
next
  case (Cons kv kvs)
  show ?case
  proof (cases "f kv (acc, sv)")
    case (Inl err)
    with assms [of kv acc sv] show ?thesis by auto
  next
    case (Inr p)
    obtain acc' sv' where p: "p = (acc', sv')" by (cases p)
    from assms [of kv acc sv] Inr p have "(sv' \<noteq> None) = (sv \<noteq> None \<or> \<not> fits kv)" by simp
    with Cons [of acc' sv'] Inr p show ?thesis by auto
  qed
qed

lemma unmarshalElems_failed:
  assumes "\<And>v x sv. failed (g v (x, sv)) = (sv \<noteq> None \<or> \<not> fits v)"
  shows "failed (unmarshalElems g zero vs sv) = (sv \<noteq> None \<or> \<not> list_all fits vs)"
proof (induction vs arbitrary: sv)
  case Nil
  show ?case by simp
next
  case (Cons v vs)
  show ?case
  proof (cases "g v (zero, sv)")
    case (Inl err)
    with assms [of v zero sv] show ?thesis by auto
  next
    case (Inr p)
    obtain x sv' where p: "p = (x, sv')" by (cases p)
    from assms [of v zero sv] Inr p have *: "(sv' \<noteq> None) = (sv \<noteq> None \<or> \<not> fits v)" by simp
    show ?thesis
    proof (cases "unmarshalElems g zero vs sv'")
      case (Inl err)
      with Cons [of sv'] * Inr p show ?thesis by auto
    next
      case (Inr q)
      obtain xs sv'' where q: "q = (xs, sv'')" by (cases q)
      with Cons [of sv'] * Inr \<open>g v (zero, sv) = Inr p\<close> p show ?thesis by auto
    qed
  qed
qed

lemma storeString_saved:
  "(\<exists>e. snd (storeString env dest v (cur, sv)) = Some e) =
     ((\<exists>e. sv = Some e) \<or> \<not> fitsString v)"
  by (cases v; cases sv) (simp_all add: saveError_def)

lemma storeTime_ok: "(\<exists>t. storeTime env v cur = Inr t) = fitsTime env v"
  by (cases v) (auto split: sum.splits)

lemma storeRepositoryField_failed:
  "failed (storeRepositoryField env kv (r, sv)) = (sv \<noteq> None \<or> \<not> fitsRepositoryMember kv)"
proof -
  obtain k v where kv: "kv = (k, v)" by (cases kv)
  show ?thesis
    by (simp add: kv fitsRepositoryMember_def case_prod_beta storeString_saved)
qed

lemma unmarshalRepository_failed:
  "failed (unmarshalRepository env v (r, sv)) = (sv \<noteq> None \<or> \<not> fitsRepository v)"
proof (cases v)
  case (JObject kvs)
  then show ?thesis
    using storeMembers_failed [of "storeRepositoryField env" fitsRepositoryMember kvs r sv]
    by (simp add: storeRepositoryField_failed)
qed (cases sv; simp add: saveError_def)+

lemma storeAuthorField_failed:
  "failed (storeAuthorField env kv (a, sv)) = (sv \<noteq> None \<or> \<not> fitsAuthorMember env kv)"
proof -
  obtain k v where kv: "kv = (k, v)" by (cases kv)
  show ?thesis
    using storeTime_ok [of env v "Date a"]
    by (auto simp add: kv fitsAuthorMember_def case_prod_beta storeString_saved split: sum.splits)
qed

lemma unmarshalAuthor_failed:
  "failed (unmarshalAuthor env v (a, sv)) = (sv \<noteq> None \<or> \<not> fitsAuthor env v)"
proof (cases v)
  case (JObject kvs)
  then show ?thesis
    using storeMembers_failed [of "storeAuthorField env" "fitsAuthorMember env" kvs a sv]
    by (simp add: storeAuthorField_failed)
qed (cases sv; simp add: saveError_def)+

lemma failed_Inr_case:
  "failed (case r of Inl err \<Rightarrow> Inl err | Inr (x, sv) \<Rightarrow> Inr (h x, sv)) = failed r"
  by (simp add: failed_def split: sum.splits prod.splits)

lemma storeCommitCommitField_failed:
  "failed (storeCommitCommitField env kv (c, sv)) =
     (sv \<noteq> None \<or> \<not> fitsCommitCommitMember env kv)"
proof -
  obtain k v where kv: "kv = (k, v)" by (cases kv)
  show ?thesis
    by (simp add: kv fitsCommitCommitMember_def case_prod_beta storeString_saved
          failed_Inr_case unmarshalAuthor_failed)
qed

lemma unmarshalCommitCommit_failed:
  "failed (unmarshalCommitCommit env v (c, sv)) = (sv \<noteq> None \<or> \<not> fitsCommitCommit env v)"
proof (cases v)
  case (JObject kvs)
  then show ?thesis
    using storeMembers_failed
            [of "storeCommitCommitField env" "fitsCommitCommitMember env" kvs c sv]
    by (simp add: storeCommitCommitField_failed)
qed (cases sv; simp add: saveError_def)+

lemma storeCommitField_failed:
  "failed (storeCommitField env kv (c, sv)) = (sv \<noteq> None \<or> \<not> fitsCommitMember env kv)"
proof -
  obtain k v where kv: "kv = (k, v)" by (cases kv)
  show ?thesis
    by (simp add: kv fitsCommitMember_def case_prod_beta storeString_saved
          failed_Inr_case unmarshalCommitCommit_failed)
qed

lemma unmarshalCommit_failed:
  "failed (unmarshalCommit env v (c, sv)) = (sv \<noteq> None \<or> \<not> fitsCommit env v)"
proof (cases v)
  case (JObject kvs)
  then show ?thesis
    using storeMembers_failed [of "storeCommitField env" "fitsCommitMember env" kvs c sv]
    by (simp add: storeCommitField_failed)
qed (cases sv; simp add: saveError_def)+

lemma unmarshalSlice_failed:
  assumes "\<And>v x sv. failed (g v (x, sv)) = (sv \<noteq> None \<or> \<not> fits v)"
  shows "failed (unmarshalSlice env dest g zero v) = (\<not> fitsSlice fits v)"
proof (cases v)
  case (JArray vs)
  have "failed (case unmarshalElems g zero vs None of Inl err \<Rightarrow> Inl err
                | Inr (xs, sv) \<Rightarrow> Inr (Slice xs, sv))
        = failed (unmarshalElems g zero vs None)"
    by (rule failed_Inr_case)
  with JArray show ?thesis
    using unmarshalElems_failed [of g fits zero vs None, OF assms] by simp
qed simp_all

lemma Decode_ok:
  assumes "ReadValue env body = Inr v"
  shows "(\<exists>xs. Decode env unmarshal body = Inr xs) = (\<not> failed (unmarshal v))"
  using assms by (auto simp: Decode_def failed_def split: sum.splits prod.splits option.splits)

lemma decodeRepositories_ok:
  assumes "ReadValue env body = Inr v"
  shows "(\<exists>repos. decodeRepositories env body = Inr repos) = fitsSlice fitsRepository v"
  unfolding decodeRepositories_def
  by (simp add: Decode_ok [OF assms]
        unmarshalSlice_failed [of "unmarshalRepository env" fitsRepository]
        unmarshalRepository_failed)

lemma decodeCommits_ok:
  assumes "ReadValue env body = Inr v"
  shows "(\<exists>commits. decodeCommits env body = Inr commits) = fitsSlice (fitsCommit env) v"
  unfolding decodeCommits_def
  by (simp add: Decode_ok [OF assms]
        unmarshalSlice_failed [of "unmarshalCommit env" "fitsCommit env"]
        unmarshalCommit_failed)


lemma storeMembers_unchanged:
  assumes "storeMembers f kvs acc = Inr acc'"
      and "\<And>kv a a'. kv \<in> set kvs \<Longrightarrow> f kv a = Inr a' \<Longrightarrow> sel a' = sel a"
  shows "sel acc' = sel acc"
  using assms
proof (induction kvs arbitrary: acc)
  case Nil
  then show ?case by simp
next
  case (Cons kv kvs)
  from Cons.prems(1) obtain a where a: "f kv acc = Inr a" and rest: "storeMembers f kvs a = Inr acc'"
    by (auto split: sum.splits)
  have "sel a = sel acc" using Cons.prems(2) [of kv acc a] a by simp
  moreover have "sel acc' = sel a"
  proof (rule Cons.IH [OF rest])
    fix kv' b b'
    assume "kv' \<in> set kvs" and "f kv' b = Inr b'"
    then show "sel b' = sel b" using Cons.prems(2) [of kv' b b'] by simp
  qed
  ultimately show ?case by simp
qed

lemma not_hasMember:
  "\<not> hasMember tag kvs \<Longrightarrow> kv \<in> set kvs \<Longrightarrow> \<not> keyMatches tag (fst kv)"
  by (auto simp: hasMember_def list_ex_iff)

lemma storeRepositoryField_keeps:
  assumes "storeRepositoryField env kv a = Inr a'"
  shows "\<not> keyMatches ''name'' (fst kv) \<Longrightarrow> Repository.Name (fst a') = Repository.Name (fst a)"
    and "\<not> keyMatches ''full_name'' (fst kv) \<Longrightarrow> FullName (fst a') = FullName (fst a)"
    and "\<not> keyMatches ''description'' (fst kv) \<Longrightarrow> Description (fst a') = Description (fst a)"
    and "\<not> keyMatches ''html_url'' (fst kv) \<Longrightarrow> Repository.HTMLURL (fst a') = Repository.HTMLURL (fst a)"
  using assms
  by (cases kv; cases a; auto simp: case_prod_beta split: if_splits)+

lemma unmarshalRepository_keeps:
  assumes "unmarshalRepository env (JObject kvs) (r0, sv0) = Inr (r, sv)"
  shows "\<not> hasMember ''name'' kvs \<Longrightarrow> Repository.Name r = Repository.Name r0"
    and "\<not> hasMember ''full_name'' kvs \<Longrightarrow> FullName r = FullName r0"
    and "\<not> hasMember ''description'' kvs \<Longrightarrow> Description r = Description r0"
    and "\<not> hasMember ''html_url'' kvs \<Longrightarrow> Repository.HTMLURL r = Repository.HTMLURL r0"
proof -
  from assms have m: "storeMembers (storeRepositoryField env) kvs (r0, sv0) = Inr (r, sv)" by simp
  show "\<not> hasMember ''name'' kvs \<Longrightarrow> Repository.Name r = Repository.Name r0"
    using storeMembers_unchanged [OF m, of "\<lambda>a. Repository.Name (fst a)"]
    by (simp add: storeRepositoryField_keeps not_hasMember)
  show "\<not> hasMember ''full_name'' kvs \<Longrightarrow> FullName r = FullName r0"
    using storeMembers_unchanged [OF m, of "\<lambda>a. FullName (fst a)"]
    by (simp add: storeRepositoryField_keeps not_hasMember)
  show "\<not> hasMember ''description'' kvs \<Longrightarrow> Description r = Description r0"
    using storeMembers_unchanged [OF m, of "\<lambda>a. Description (fst a)"]
    by (simp add: storeRepositoryField_keeps not_hasMember)
  show "\<not> hasMember ''html_url'' kvs \<Longrightarrow> Repository.HTMLURL r = Repository.HTMLURL r0"
    using storeMembers_unchanged [OF m, of "\<lambda>a. Repository.HTMLURL (fst a)"]
    by (simp add: storeRepositoryField_keeps not_hasMember)
qed

lemma storeAuthorField_keeps:
  assumes "storeAuthorField env kv a = Inr a'"
  shows "\<not> keyMatches ''name'' (fst kv) \<Longrightarrow>
           Commit_Commit_Author.Name (fst a') = Commit_Commit_Author.Name (fst a)"
    and "\<not> keyMatches ''email'' (fst kv) \<Longrightarrow> Email (fst a') = Email (fst a)"
    and "\<not> keyMatches ''date'' (fst kv) \<Longrightarrow> Date (fst a') = Date (fst a)"
  using assms
  by (cases kv; cases a; auto simp: case_prod_beta split: if_splits sum.splits)+

lemma unmarshalAuthor_keeps:
  assumes "unmarshalAuthor env (JObject kvs) (a0, sv0) = Inr (a, sv)"
  shows "\<not> hasMember ''name'' kvs \<Longrightarrow>
           Commit_Commit_Author.Name a = Commit_Commit_Author.Name a0"
    and "\<not> hasMember ''email'' kvs \<Longrightarrow> Email a = Email a0"
    and "\<not> hasMember ''date'' kvs \<Longrightarrow> Date a = Date a0"
proof -
  from assms have m: "storeMembers (storeAuthorField env) kvs (a0, sv0) = Inr (a, sv)" by simp
  show "\<not> hasMember ''name'' kvs \<Longrightarrow>
           Commit_Commit_Author.Name a = Commit_Commit_Author.Name a0"
    using storeMembers_unchanged [OF m, of "\<lambda>a. Commit_Commit_Author.Name (fst a)"]
    by (simp add: storeAuthorField_keeps not_hasMember)
  show "\<not> hasMember ''email'' kvs \<Longrightarrow> Email a = Email a0"
    using storeMembers_unchanged [OF m, of "\<lambda>a. Email (fst a)"]
    by (simp add: storeAuthorField_keeps not_hasMember)
  show "\<not> hasMember ''date'' kvs \<Longrightarrow> Date a = Date a0"
    using storeMembers_unchanged [OF m, of "\<lambda>a. Date (fst a)"]
    by (simp add: storeAuthorField_keeps not_hasMember)
qed

lemma storeCommitCommitField_keeps:
  assumes "storeCommitCommitField env kv a = Inr a'"
  shows "\<not> keyMatches ''message'' (fst kv) \<Longrightarrow> Message (fst a') = Message (fst a)"
    and "\<not> keyMatches ''author'' (fst kv) \<Longrightarrow> Author (fst a') = Author (fst a)"
  using assms
  by (cases kv; cases a; auto simp: case_prod_beta split: if_splits sum.splits)+

lemma unmarshalCommitCommit_keeps:
  assumes "unmarshalCommitCommit env (JObject kvs) (c0, sv0) = Inr (c, sv)"
  shows "\<not> hasMember ''message'' kvs \<Longrightarrow> Message c = Message c0"
    and "\<not> hasMember ''author'' kvs \<Longrightarrow> Author c = Author c0"
proof -
  from assms have m: "storeMembers (storeCommitCommitField env) kvs (c0, sv0) = Inr (c, sv)"
    by simp
  show "\<not> hasMember ''message'' kvs \<Longrightarrow> Message c = Message c0"
    using storeMembers_unchanged [OF m, of "\<lambda>a. Message (fst a)"]
    by (simp add: storeCommitCommitField_keeps not_hasMember)
  show "\<not> hasMember ''author'' kvs \<Longrightarrow> Author c = Author c0"
    using storeMembers_unchanged [OF m, of "\<lambda>a. Author (fst a)"]
    by (simp add: storeCommitCommitField_keeps not_hasMember)
qed

lemma storeCommitField_keeps:
  assumes "storeCommitField env kv a = Inr a'"
  shows "\<not> keyMatches ''sha'' (fst kv) \<Longrightarrow> SHA (fst a') = SHA (fst a)"
    and "\<not> keyMatches ''commit'' (fst kv) \<Longrightarrow> Commit (fst a') = Commit (fst a)"
    and "\<not> keyMatches ''html_url'' (fst kv) \<Longrightarrow> Commit.HTMLURL (fst a') = Commit.HTMLURL (fst a)"
  using assms
  by (cases kv; cases a; auto simp: case_prod_beta split: if_splits sum.splits)+

lemma unmarshalCommit_keeps:
  assumes "unmarshalCommit env (JObject kvs) (c0, sv0) = Inr (c, sv)"
  shows "\<not> hasMember ''sha'' kvs \<Longrightarrow> SHA c = SHA c0"
    and "\<not> hasMember ''commit'' kvs \<Longrightarrow> Commit c = Commit c0"
    and "\<not> hasMember ''html_url'' kvs \<Longrightarrow> Commit.HTMLURL c = Commit.HTMLURL c0"
proof -
  from assms have m: "storeMembers (storeCommitField env) kvs (c0, sv0) = Inr (c, sv)" by simp
  show "\<not> hasMember ''sha'' kvs \<Longrightarrow> SHA c = SHA c0"
    using storeMembers_unchanged [OF m, of "\<lambda>a. SHA (fst a)"]
    by (simp add: storeCommitField_keeps not_hasMember)
  show "\<not> hasMember ''commit'' kvs \<Longrightarrow> Commit c = Commit c0"
    using storeMembers_unchanged [OF m, of "\<lambda>a. Commit (fst a)"]
    by (simp add: storeCommitField_keeps not_hasMember)
  show "\<not> hasMember ''html_url'' kvs \<Longrightarrow> Commit.HTMLURL c = Commit.HTMLURL c0"
    using storeMembers_unchanged [OF m, of "\<lambda>a. Commit.HTMLURL (fst a)"]
    by (simp add: storeCommitField_keeps not_hasMember)
qed

lemma unmarshalElems_empty_objects:
  "unmarshalElems (unmarshalRepository env) zeroRepository (replicate n (JObject [])) sv
     = Inr (replicate n zeroRepository, sv)"
  by (induction n) simp_all

lemma decode_empty_objects:
  assumes "ReadValue env body = Inr (JArray (replicate n (JObject [])))"
  shows "decodeRepositories env body = Inr (Slice (replicate n zeroRepository))"
  using assms by (simp add: decodeRepositories_def Decode_def unmarshalElems_empty_objects)

lemmas stub_defs = stubEnv_def start_def ok_def okResponse_def notFound_def
  notFoundResponse_def proxyResponse_def reposURL_def commitsURL_def
  apiRequest_def apiClient_def apiError_def githubAPIBase_def username_def StatusOK_def
  StatusInternalServerError_def Second_def

lemmas run_defs = serveGitHistory_def getGitHistory_def fetchRepositories_def fetchCommits_def
  NewRequest_def Header_Set_def client_Do_def decodeRepositories_def decodeCommits_def Decode_def
  Printf_def fetchErrorLine_def keyMatches_def toUpper_def newCommitHistory_def slice_to_def
  append_slice_def saveError_def zeroRepository_def zeroCommit_def zeroAuthor_def zeroTime_def

section \<open>The empty result\<close>

text \<open>
  \<^verbatim>\<open>var allCommits []CommitHistory\<close> declares a nil slice and only \<^verbatim>\<open>append\<close> makes it
  non-nil. When the listing succeeds and no commit call returns a commit, the handler
  therefore hands the nil slice to \<^verbatim>\<open>c.JSON\<close>, and the body of the 200 answer is
  \<^verbatim>\<open>null\<close>.
\<close>

lemma no_entries_is_null:
  assumes "fst (fetchRepositories env s) = Inr repos"
      and "list_all (\<lambda>out. returnedCommits out = [])
             (commitOutcomes env (elems repos) (snd (fetchRepositories env s)))"
  shows "fst (serveGitHistory env s) = \<lparr>code = 200, content = Some JNull\<rparr>"
proof -
  have e: "list_all (\<lambda>out. returnedCommits out = []) outs \<Longrightarrow> shasLongEnough outs" for outs
    by (induction outs) simp_all
  have b: "list_all (\<lambda>out. returnedCommits out = []) outs \<Longrightarrow>
             concat (map block (zip rs outs)) = []" for rs outs
  proof (induction outs arbitrary: rs)
    case Nil
    show ?case by simp
  next
    case (Cons out outs)
    then show ?case by (cases rs) (simp_all add: block_def)
  qed
  have "fst (getGitHistory env s) = JSON StatusOK (Commits NilSlice)"
    using getGitHistory_listed [OF assms(1)] e [OF assms(2)] b [OF assms(2)] by simp
  then show ?thesis
    by (cases "getGitHistory env s") (simp add: serveGitHistory_def StatusOK_def)
qed

text \<open>
  Claim C1 says that a listing of zero repositories is answered 200 with the empty JSON
  array, never \<^verbatim>\<open>null\<close>, and that the collection is never nil. On the code, with the
  listing answered \<^verbatim>\<open>200 OK\<close> and body \<^verbatim>\<open>[]\<close>: the listing succeeds with an empty slice,
  the handler answers 200 with the nil slice, and the body sent is \<^verbatim>\<open>null\<close>.
\<close>

theorem empty_listing_is_answered_null:
  "fst (fetchRepositories emptyEnv start) = Inr (Slice []) \<and>
   fst (getGitHistory emptyEnv start) = JSON 200 (Commits NilSlice) \<and>
   fst (serveGitHistory emptyEnv start) = \<lparr>code = 200, content = Some JNull\<rparr>"
  by (simp add: emptyEnv_def stub_defs run_defs)

section \<open>The listing fails\<close>

text \<open>
  Claim C2: whenever the listing call returns an error, the handler answers 500 with
  the JSON object whose only member \<^verbatim>\<open>error\<close> is the message of that error; it stops
  there, in the state the listing call left: the only request of the run, if any, is
  the listing request, so no commit is fetched, nothing is printed, and what is sent
  is the error object, not a collection.
\<close>

theorem listing_failure_is_answered_500:
  assumes "fst (fetchRepositories env s) = Inl err"
  shows "fst (getGitHistory env s) = JSON 500 (H [(''error'', Error err)]) \<and>
         fst (serveGitHistory env s) =
           \<lparr>code = 500, content = Some (JObject [(''error'', JString (Error err))])\<rparr> \<and>
         snd (getGitHistory env s) = snd (fetchRepositories env s) \<and>
         (requests (snd (getGitHistory env s)) = requests s \<or>
          requests (snd (getGitHistory env s)) = requests s @ [apiRequest reposURL]) \<and>
         stdout (snd (getGitHistory env s)) = stdout s"
proof -
  have g: "getGitHistory env s =
      (JSON 500 (H [(''error'', Error err)]), snd (fetchRepositories env s))"
    using getGitHistory_failed [OF assms] by (simp add: StatusInternalServerError_def)
  then have "fst (serveGitHistory env s) =
      \<lparr>code = 500, content = Some (JObject [(''error'', JString (Error err))])\<rparr>"
    by (simp add: serveGitHistory_def)
  with g fetchRepositories_requests [of env s] fetchRepositories_stdout [of env s]
  show ?thesis by simp
qed

text \<open>The listing answered 404: one request, the message of the API error in the body.\<close>

theorem listing_failure_is_answered_500_witness:
  "fst (fetchRepositories downEnv start) = Inl notFoundError \<and>
   fst (getGitHistory downEnv start) = JSON 500 (H [(''error'', Error notFoundError)]) \<and>
   requests (snd (getGitHistory downEnv start)) = [apiRequest reposURL] \<and>
   stdout (snd (getGitHistory downEnv start)) = []"
proof -
  have f: "fst (fetchRepositories downEnv start) = Inl notFoundError"
    by (simp add: downEnv_def notFoundError_def stub_defs run_defs)
  have r: "requests (snd (fetchRepositories downEnv start)) = [apiRequest reposURL]"
    by (simp add: downEnv_def stub_defs run_defs)
  note t = listing_failure_is_answered_500 [OF f]
  have g: "fst (getGitHistory downEnv start) = JSON 500 (H [(''error'', Error notFoundError)])"
    using t by blast
  have e: "snd (getGitHistory downEnv start) = snd (fetchRepositories downEnv start)"
    using t by blast
  have p: "stdout (snd (getGitHistory downEnv start)) = stdout start"
    using t by blast
  have "stdout start = []" by (simp add: start_def)
  with f g r e p show ?thesis by simp
qed

section \<open>The listing succeeds\<close>

text \<open>
  Claim C3, as stated, promises 200 for every run whose listing succeeds. It fails when
  a commit call succeeds with a hash shorter than 7 bytes: the listing returns one
  repository, its commit call returns one commit with the hash \<^verbatim>\<open>abc\<close>, the handler
  panics, and the recovery middleware answers 500 with no body.
\<close>

theorem short_sha_is_answered_500:
  "fst (fetchRepositories shortShaEnv start) = Inr (Slice [repoA]) \<and>
   commitOutcomes shortShaEnv [repoA] (snd (fetchRepositories shortShaEnv start))
     = [Inr (Slice [shortCommit])] \<and>
   fst (getGitHistory shortShaEnv start) = Panicked \<and>
   fst (serveGitHistory shortShaEnv start) = \<lparr>code = 500, content = None\<rparr>"
  by (simp add: shortShaEnv_def oneRepoText_def oneRepoValue_def shortCommitText_def
        shortCommitValue_def shortCommit_def repoA_def stub_defs run_defs)

text \<open>
  Claim C3, amended: in every run whose listing succeeds and whose successful commit
  calls return only hashes of at least 7 bytes, the answer is 200 however many commit
  calls fail. There is one commit call per listed repository, and the output is the
  blocks of the repositories one after the other: the block of a repository whose call
  failed is empty, the block of one whose call succeeded holds the entries of its
  commits.
\<close>

theorem listing_success_is_answered_200:
  assumes "fst (fetchRepositories env s) = Inr repos"
      and "shasLongEnough (commitOutcomes env (elems repos) (snd (fetchRepositories env s)))"
  shows "\<exists>out. fst (getGitHistory env s) = JSON 200 (Commits out) \<and>
           code (fst (serveGitHistory env s)) = 200 \<and>
           length (commitOutcomes env (elems repos) (snd (fetchRepositories env s)))
             = length (elems repos) \<and>
           elems out = concat (map block (zip (elems repos)
             (commitOutcomes env (elems repos) (snd (fetchRepositories env s))))) \<and>
           (\<forall>repo err. block (repo, Inl err) = []) \<and>
           (\<forall>repo commits. block (repo, Inr commits) = map (entryOf repo) (elems commits))"
proof -
  let ?outs = "commitOutcomes env (elems repos) (snd (fetchRepositories env s))"
  let ?out = "extend NilSlice (concat (map block (zip (elems repos) ?outs)))"
  have g: "fst (getGitHistory env s) = JSON 200 (Commits ?out)"
    using getGitHistory_listed [OF assms(1)] assms(2) by (simp add: StatusOK_def)
  then have c: "code (fst (serveGitHistory env s)) = 200"
    by (simp add: serve_code)
  have l: "length ?outs = length (elems repos)"
    using assms(2) by (rule length_commitOutcomes)
  have e: "elems ?out = concat (map block (zip (elems repos) ?outs))"
    by simp
  from g c l e show ?thesis by (intro exI [of _ ?out]) simp
qed

text \<open>The scenario of the specification: repositories \<^verbatim>\<open>a\<close> and \<^verbatim>\<open>b\<close>, one commit
  \<^verbatim>\<open>init\<close> in \<^verbatim>\<open>a\<close>, 404 for the commits of \<^verbatim>\<open>b\<close>; the answer is 200 with the one entry.\<close>

theorem listing_success_is_answered_200_witness:
  "fst (fetchRepositories scenarioEnv start) = Inr (Slice [repoA, repoB]) \<and>
   commitOutcomes scenarioEnv [repoA, repoB] (snd (fetchRepositories scenarioEnv start))
     = [Inr (Slice [initCommit]), Inl notFoundError] \<and>
   shasLongEnough [Inr (Slice [initCommit]), Inl notFoundError] \<and>
   (\<exists>out. fst (getGitHistory scenarioEnv start) = JSON 200 (Commits out) \<and>
      code (fst (serveGitHistory scenarioEnv start)) = 200 \<and>
      elems out = [initEntry])"
proof -
  have f: "fst (fetchRepositories scenarioEnv start) = Inr (Slice [repoA, repoB])"
    by (simp add: scenarioEnv_def twoReposText_def twoReposValue_def oneCommitText_def
          repoA_def repoB_def stub_defs run_defs)
  have o: "commitOutcomes scenarioEnv [repoA, repoB] (snd (fetchRepositories scenarioEnv start))
     = [Inr (Slice [initCommit]), Inl notFoundError]"
    by (simp add: scenarioEnv_def twoReposText_def twoReposValue_def oneCommitText_def
          oneCommitValue_def initCommit_def notFoundError_def repoA_def repoB_def
          stub_defs run_defs)
  have l: "shasLongEnough [Inr (Slice [initCommit]), Inl notFoundError]"
    by (simp add: initCommit_def)
  have b: "concat (map block (zip [repoA, repoB] [Inr (Slice [initCommit]), Inl notFoundError]))
     = [initEntry]"
    by (simp add: entryOf_def initEntry_def initCommit_def repoA_def)
  have "shasLongEnough
     (commitOutcomes scenarioEnv (elems (Slice [repoA, repoB]))
        (snd (fetchRepositories scenarioEnv start)))"
    using o l by simp
  from listing_success_is_answered_200 [OF f this] o b
  have "\<exists>out. fst (getGitHistory scenarioEnv start) = JSON 200 (Commits out) \<and>
      code (fst (serveGitHistory scenarioEnv start)) = 200 \<and>
      elems out = [initEntry]"
    by auto
  with f o l show ?thesis by blast
qed

text \<open>
  Claim C4, as stated, counts the entries of the output of every run whose listing
  succeeds. With the one commit of the hash \<^verbatim>\<open>abc\<close> the listing succeeds and the commit
  calls that succeeded returned one commit in all, but the handler panics and the
  answer carries no entry.
\<close>

theorem short_sha_sends_no_entries:
  "fst (fetchRepositories shortShaEnv start) = Inr (Slice [repoA]) \<and>
   sum_list [length (elems commits).
     Inr commits \<leftarrow> commitOutcomes shortShaEnv [repoA] (snd (fetchRepositories shortShaEnv start))]
     = 1 \<and>
   fst (getGitHistory shortShaEnv start) = Panicked \<and>
   content (fst (serveGitHistory shortShaEnv start)) = None"
  by (simp add: shortShaEnv_def oneRepoText_def oneRepoValue_def shortCommitText_def
        shortCommitValue_def shortCommit_def repoA_def stub_defs run_defs)

text \<open>
  Claim C4, amended: in every run whose listing succeeds and whose successful commit
  calls return only hashes of at least 7 bytes, the handler answers with an output
  whose number of entries is the sum, over the commit calls that succeeded, of the
  number of commits returned.
\<close>

theorem entry_count:
  assumes "fst (fetchRepositories env s) = Inr repos"
      and "shasLongEnough (commitOutcomes env (elems repos) (snd (fetchRepositories env s)))"
  shows "\<exists>out. fst (getGitHistory env s) = JSON 200 (Commits out) \<and>
           length (elems out) =
             sum_list [length (elems commits).
               Inr commits \<leftarrow> commitOutcomes env (elems repos) (snd (fetchRepositories env s))]"
proof -
  let ?outs = "commitOutcomes env (elems repos) (snd (fetchRepositories env s))"
  let ?out = "extend NilSlice (concat (map block (zip (elems repos) ?outs)))"
  have g: "fst (getGitHistory env s) = JSON 200 (Commits ?out)"
    using getGitHistory_listed [OF assms(1)] assms(2) by (simp add: StatusOK_def)
  have "length (elems repos) = length ?outs"
    using length_commitOutcomes [OF assms(2)] by simp
  then have "length (elems ?out) = sum_list (map (\<lambda>out. length (returnedCommits out)) ?outs)"
    using length_blocks [of "elems repos" ?outs] by simp
  then have "length (elems ?out) = sum_list [length (elems commits). Inr commits \<leftarrow> ?outs]"
    by (simp only: sum_successes)
  with g show ?thesis by blast
qed

text \<open>The scenario of the specification: one call returns one commit, one fails,
  and the output has one entry.\<close>

theorem entry_count_witness:
  "fst (fetchRepositories scenarioEnv start) = Inr (Slice [repoA, repoB]) \<and>
   commitOutcomes scenarioEnv [repoA, repoB] (snd (fetchRepositories scenarioEnv start))
     = [Inr (Slice [initCommit]), Inl notFoundError] \<and>
   shasLongEnough [Inr (Slice [initCommit]), Inl notFoundError] \<and>
   (\<exists>out. fst (getGitHistory scenarioEnv start) = JSON 200 (Commits out) \<and>
      length (elems out) = 1)"
proof -
  have f: "fst (fetchRepositories scenarioEnv start) = Inr (Slice [repoA, repoB])"
    by (simp add: scenarioEnv_def twoReposText_def twoReposValue_def oneCommitText_def
          repoA_def repoB_def stub_defs run_defs)
  have o: "commitOutcomes scenarioEnv [repoA, repoB] (snd (fetchRepositories scenarioEnv start))
     = [Inr (Slice [initCommit]), Inl notFoundError]"
    by (simp add: scenarioEnv_def twoReposText_def twoReposValue_def oneCommitText_def
          oneCommitValue_def initCommit_def notFoundError_def repoA_def repoB_def
          stub_defs run_defs)
  have l: "shasLongEnough [Inr (Slice [initCommit]), Inl notFoundError]"
    by (simp add: initCommit_def)
  have "shasLongEnough
     (commitOutcomes scenarioEnv (elems (Slice [repoA, repoB]))
        (snd (fetchRepositories scenarioEnv start)))"
    using o l by simp
  from entry_count [OF f this] o
  have "\<exists>out. fst (getGitHistory scenarioEnv start) = JSON 200 (Commits out) \<and>
      length (elems out) = 1"
    by auto
  with f o l show ?thesis by blast
qed

section \<open>Status codes\<close>

text \<open>
  Claim C5, as stated, takes every 2xx status for a success. The source compares with
  \<^verbatim>\<open>http.StatusOK\<close>: a listing answered 203 with the body \<^verbatim>\<open>[]\<close>, which decodes to the
  empty slice, is turned into an API error.
\<close>

theorem status_203_is_an_error:
  "Do proxyEnv apiClient (apiRequest reposURL) (world start) = (Inr proxyResponse, 1) \<and>
   StatusCode proxyResponse = 203 \<and>
   decodeRepositories proxyEnv (Body proxyResponse) = Inr (Slice []) \<and>
   fst (fetchRepositories proxyEnv start) =
     Inl (GoError ''GitHub API error: 203 Non-Authoritative Information - []'')"
  by (simp add: proxyEnv_def stub_defs run_defs)

text \<open>
  Claim C5, amended: for a request that could be built and was answered, by
  \<^verbatim>\<open>fetchRepositories\<close> and by \<^verbatim>\<open>fetchCommits\<close> alike, the status 200 and no other is a
  success, whose body is decoded; any other status, the other 2xx included, gives the
  API error whose message is \<^verbatim>\<open>GitHub API error: \<close>, the status text of the response
  (which \<^verbatim>\<open>net/http\<close> starts with the number), \<^verbatim>\<open> - \<close> and the whole body; and an error is
  returned if and only if the status is not 200 or the decoding fails.
\<close>

theorem only_status_200_is_success:
  "(ParseURL env reposURL = None \<longrightarrow>
    Do env apiClient (apiRequest reposURL) (world s) = (Inr resp, w) \<longrightarrow>
      fst (fetchRepositories env s) =
        (if StatusCode resp = 200 then decodeRepositories env (Body resp)
         else Inl (apiError resp)) \<and>
      ((\<exists>err. fst (fetchRepositories env s) = Inl err) =
        (StatusCode resp \<noteq> 200 \<or> (\<exists>err. decodeRepositories env (Body resp) = Inl err)))) \<and>
   (ParseURL env (commitsURL name) = None \<longrightarrow>
    Do env apiClient (apiRequest (commitsURL name)) (world s) = (Inr resp', w') \<longrightarrow>
      fst (fetchCommits env name s) =
        (if StatusCode resp' = 200 then decodeCommits env (Body resp')
         else Inl (apiError resp')) \<and>
      ((\<exists>err. fst (fetchCommits env name s) = Inl err) =
        (StatusCode resp' \<noteq> 200 \<or> (\<exists>err. decodeCommits env (Body resp') = Inl err)))) \<and>
   Error (apiError r) = ''GitHub API error: '' @ Status r @ '' - '' @ Body r"
proof (intro conjI impI)
  assume a: "ParseURL env reposURL = None"
     and b: "Do env apiClient (apiRequest reposURL) (world s) = (Inr resp, w)"
  show f: "fst (fetchRepositories env s) =
        (if StatusCode resp = 200 then decodeRepositories env (Body resp)
         else Inl (apiError resp))"
    by (rule fetchRepositories_responded [OF a b])
  show "(\<exists>err. fst (fetchRepositories env s) = Inl err) =
        (StatusCode resp \<noteq> 200 \<or> (\<exists>err. decodeRepositories env (Body resp) = Inl err))"
    by (simp add: f)
next
  assume a: "ParseURL env (commitsURL name) = None"
     and b: "Do env apiClient (apiRequest (commitsURL name)) (world s) = (Inr resp', w')"
  show f: "fst (fetchCommits env name s) =
        (if StatusCode resp' = 200 then decodeCommits env (Body resp')
         else Inl (apiError resp'))"
    by (rule fetchCommits_responded [OF a b])
  show "(\<exists>err. fst (fetchCommits env name s) = Inl err) =
        (StatusCode resp' \<noteq> 200 \<or> (\<exists>err. decodeCommits env (Body resp') = Inl err))"
    by (simp add: f)
next
  show "Error (apiError r) = ''GitHub API error: '' @ Status r @ '' - '' @ Body r"
    by (simp add: apiError_def)
qed

text \<open>The listing answered 200 is decoded; the commits of \<^verbatim>\<open>u/b\<close> answered 404 are
  the API error with status text and body.\<close>

theorem only_status_200_is_success_witness:
  "ParseURL scenarioEnv reposURL = None \<and>
   Do scenarioEnv apiClient (apiRequest reposURL) (world start) = (Inr (okResponse twoReposText), 1) \<and>
   fst (fetchRepositories scenarioEnv start) = decodeRepositories scenarioEnv twoReposText \<and>
   ParseURL scenarioEnv (commitsURL ''u/b'') = None \<and>
   Do scenarioEnv apiClient (apiRequest (commitsURL ''u/b'')) (world start)
     = (Inr notFoundResponse, 1) \<and>
   fst (fetchCommits scenarioEnv ''u/b'' start) = Inl (apiError notFoundResponse) \<and>
   apiError notFoundResponse = notFoundError"
proof -
  have a: "ParseURL scenarioEnv reposURL = None"
    by (simp add: scenarioEnv_def stubEnv_def)
  have b: "Do scenarioEnv apiClient (apiRequest reposURL) (world start)
      = (Inr (okResponse twoReposText), 1)"
    by (simp add: scenarioEnv_def stubEnv_def start_def ok_def apiRequest_def)
  have c: "ParseURL scenarioEnv (commitsURL ''u/b'') = None"
    by (simp add: scenarioEnv_def stubEnv_def)
  have d: "Do scenarioEnv apiClient (apiRequest (commitsURL ''u/b'')) (world start)
      = (Inr notFoundResponse, 1)"
    by (simp add: scenarioEnv_def stubEnv_def start_def notFound_def apiRequest_def
          reposURL_def commitsURL_def)
  note t = only_status_200_is_success
    [where env = scenarioEnv and s = start and resp = "okResponse twoReposText" and w = 1
       and name = "''u/b''" and resp' = notFoundResponse and w' = 1]
  from t a b have "fst (fetchRepositories scenarioEnv start) =
      (if StatusCode (okResponse twoReposText) = 200
       then decodeRepositories scenarioEnv (Body (okResponse twoReposText))
       else Inl (apiError (okResponse twoReposText)))"
    by blast
  then have e: "fst (fetchRepositories scenarioEnv start)
      = decodeRepositories scenarioEnv twoReposText"
    by (simp add: okResponse_def)
  from t c d have "fst (fetchCommits scenarioEnv ''u/b'' start) =
      (if StatusCode notFoundResponse = 200
       then decodeCommits scenarioEnv (Body notFoundResponse)
       else Inl (apiError notFoundResponse))"
    by blast
  then have f: "fst (fetchCommits scenarioEnv ''u/b'' start) = Inl (apiError notFoundResponse)"
    by (simp add: notFoundResponse_def)
  have g: "apiError notFoundResponse = notFoundError"
    by (simp add: apiError_def notFoundResponse_def notFoundError_def)
  from a b c d e f g show ?thesis by blast
qed

section \<open>The short hash\<close>

text \<open>
  Claim C6: for a commit whose hash has at least 7 bytes the entry is built, and its
  \<^verbatim>\<open>commit_sha\<close> has exactly 7 bytes and is a prefix of the hash: its first 7 bytes.
\<close>

theorem commit_sha_is_the_7_byte_prefix:
  assumes "7 \<le> length (SHA commit)"
  shows "\<exists>entry. newCommitHistory repo commit = Some entry \<and>
           length (CommitSHA entry) = 7 \<and>
           prefix (CommitSHA entry) (SHA commit) \<and>
           CommitSHA entry = take 7 (SHA commit)"
  using assms by (simp add: newCommitHistory_eq entryOf_def take_is_prefix)

text \<open>A hash of 40 hexadecimal digits.\<close>

theorem commit_sha_is_the_7_byte_prefix_witness:
  "7 \<le> length (SHA initCommit) \<and>
   (\<exists>entry. newCommitHistory repoA initCommit = Some entry \<and>
      length (CommitSHA entry) = 7 \<and>
      prefix (CommitSHA entry) (SHA initCommit) \<and>
      CommitSHA entry = ''1234567'')"
proof -
  have l: "7 \<le> length (SHA initCommit)" by (simp add: initCommit_def)
  have "take 7 (SHA initCommit) = ''1234567''" by (simp add: initCommit_def)
  with commit_sha_is_the_7_byte_prefix [OF l, of repoA] l show ?thesis by auto
qed

text \<open>
  Claim C7: building the entry faults exactly for the hashes of fewer than 7 bytes, so
  it is not total over the commits that decode; and a run whose listing succeeds and
  in which a successful commit call returns such a hash ends in the panic of the
  handler, which the recovery middleware answers with 500 and no body.
\<close>

theorem short_sha_panics:
  "(newCommitHistory repo commit = None) = (length (SHA commit) < 7) \<and>
   (fst (fetchRepositories env s) = Inr repos \<longrightarrow>
    \<not> shasLongEnough (commitOutcomes env (elems repos) (snd (fetchRepositories env s))) \<longrightarrow>
      fst (getGitHistory env s) = Panicked \<and>
      fst (serveGitHistory env s) = \<lparr>code = 500, content = None\<rparr>)"
proof (intro conjI impI)
  show "(newCommitHistory repo commit = None) = (length (SHA commit) < 7)"
    by (auto simp: newCommitHistory_eq)
next
  assume a: "fst (fetchRepositories env s) = Inr repos"
     and b: "\<not> shasLongEnough (commitOutcomes env (elems repos) (snd (fetchRepositories env s)))"
  show p: "fst (getGitHistory env s) = Panicked"
    using getGitHistory_listed [OF a] b by simp
  show "fst (serveGitHistory env s) = \<lparr>code = 500, content = None\<rparr>"
    using p by (cases "getGitHistory env s")
      (simp add: serveGitHistory_def StatusInternalServerError_def)
qed

text \<open>The commit with the hash \<^verbatim>\<open>abc\<close>, returned by a successful commit call.\<close>

theorem short_sha_panics_witness:
  "length (SHA shortCommit) < 7 \<and> newCommitHistory repoA shortCommit = None \<and>
   fst (fetchRepositories shortShaEnv start) = Inr (Slice [repoA]) \<and>
   \<not> shasLongEnough (commitOutcomes shortShaEnv [repoA]
       (snd (fetchRepositories shortShaEnv start))) \<and>
   fst (getGitHistory shortShaEnv start) = Panicked \<and>
   fst (serveGitHistory shortShaEnv start) = \<lparr>code = 500, content = None\<rparr>"
proof -
  have l: "length (SHA shortCommit) < 7" by (simp add: shortCommit_def)
  have f: "fst (fetchRepositories shortShaEnv start) = Inr (Slice [repoA])"
    by (simp add: shortShaEnv_def oneRepoText_def oneRepoValue_def repoA_def stub_defs run_defs)
  have o: "commitOutcomes shortShaEnv [repoA] (snd (fetchRepositories shortShaEnv start))
      = [Inr (Slice [shortCommit])]"
    by (simp add: shortShaEnv_def oneRepoText_def oneRepoValue_def shortCommitText_def
        shortCommitValue_def shortCommit_def repoA_def stub_defs run_defs)
  have n: "\<not> shasLongEnough (commitOutcomes shortShaEnv (elems (Slice [repoA]))
       (snd (fetchRepositories shortShaEnv start)))"
    unfolding elems.simps o by (simp add: shortCommit_def)
  note t = short_sha_panics [of repoA shortCommit shortShaEnv start "Slice [repoA]"]
  from t l have "newCommitHistory repoA shortCommit = None" by blast
  moreover from t f n have "fst (getGitHistory shortShaEnv start) = Panicked \<and>
      fst (serveGitHistory shortShaEnv start) = \<lparr>code = 500, content = None\<rparr>"
    by blast
  ultimately show ?thesis using l f n by simp
qed

section \<open>The order of the output\<close>

lemmas order_defs = baReposText_def baReposValue_def commitAt_def commitValue_def bNew_def
  bOld_def aNew_def aOld_def bCommitsText_def bCommitsValue_def aCommitsText_def
  aCommitsValue_def fourSeconds_def repoA_def repoB_def

text \<open>Every answer with a collection has the order of the listing and of the commit
  calls: a run that answers 200 is a run whose listing succeeded and whose output is
  the blocks of the repositories one after the other.\<close>

lemma answered_output_order:
  assumes "fst (getGitHistory env s) = JSON 200 (Commits out)"
  shows "\<exists>repos. fst (fetchRepositories env s) = Inr repos \<and>
           length (commitOutcomes env (elems repos) (snd (fetchRepositories env s)))
             = length (elems repos) \<and>
           elems out = concat (map block (zip (elems repos)
             (commitOutcomes env (elems repos) (snd (fetchRepositories env s)))))"
proof (cases "fst (fetchRepositories env s)")
  case (Inl err)
  with assms getGitHistory_failed [OF Inl] show ?thesis by simp
next
  case (Inr repos)
  let ?outs = "commitOutcomes env (elems repos) (snd (fetchRepositories env s))"
  have l: "shasLongEnough ?outs"
    using getGitHistory_listed [OF Inr] assms by (simp split: if_splits)
  then have "out = extend NilSlice (concat (map block (zip (elems repos) ?outs)))"
    using getGitHistory_listed [OF Inr] assms by simp
  then have "elems out = concat (map block (zip (elems repos) ?outs))" by simp
  with Inr length_commitOutcomes [OF l] show ?thesis by simp
qed

text \<open>
  Claim C8, as stated, speaks of every successful run, which claim C4 spells out as
  every run whose listing succeeded. It fails where the handler panics: the listing
  returns \<^verbatim>\<open>b\<close> and \<^verbatim>\<open>a\<close>, the commit call of \<^verbatim>\<open>b\<close> returns two commits with full hashes,
  the commit call of \<^verbatim>\<open>a\<close> returns the hash \<^verbatim>\<open>abc\<close>, and no entry of \<^verbatim>\<open>b\<close> appears in any
  order, since the answer is 500 with no body.
\<close>

theorem panic_sends_no_block:
  "fst (fetchRepositories lateShortEnv start) = Inr (Slice [repoB, repoA]) \<and>
   commitOutcomes lateShortEnv [repoB, repoA] (snd (fetchRepositories lateShortEnv start))
     = [Inr (Slice [bNew, bOld]), Inr (Slice [shortCommit])] \<and>
   fst (getGitHistory lateShortEnv start) = Panicked \<and>
   fst (serveGitHistory lateShortEnv start) = \<lparr>code = 500, content = None\<rparr>"
  by (simp add: lateShortEnv_def order_defs shortCommitText_def shortCommitValue_def
        shortCommit_def stub_defs run_defs)

text \<open>
  Claim C8, amended: in every run whose listing succeeds and whose successful commit
  calls return only hashes of at least 7 bytes, the handler answers 200 with an output
  that is the concatenation, in the order of the listing, of one block per listed
  repository; the block of each repository stands in one piece between the blocks of
  the repositories listed before it and those listed after it, and holds the entries
  of its commits in the order its commit call returned them (none for a failed call).
  Nothing is sorted.
\<close>

theorem output_order:
  assumes "fst (fetchRepositories env s) = Inr repos"
      and "shasLongEnough (commitOutcomes env (elems repos) (snd (fetchRepositories env s)))"
  shows "\<exists>out. fst (getGitHistory env s) = JSON 200 (Commits out) \<and>
           length (commitOutcomes env (elems repos) (snd (fetchRepositories env s)))
             = length (elems repos) \<and>
           elems out = concat (map block (zip (elems repos)
             (commitOutcomes env (elems repos) (snd (fetchRepositories env s))))) \<and>
           (\<forall>i < length (elems repos).
              elems out =
                concat (map block (take i (zip (elems repos)
                  (commitOutcomes env (elems repos) (snd (fetchRepositories env s)))))) @
                block (elems repos ! i,
                  commitOutcomes env (elems repos) (snd (fetchRepositories env s)) ! i) @
                concat (map block (drop (Suc i) (zip (elems repos)
                  (commitOutcomes env (elems repos) (snd (fetchRepositories env s))))))) \<and>
           (\<forall>repo outcome.
              block (repo, outcome) = map (entryOf repo) (returnedCommits outcome))"
proof -
  let ?outs = "commitOutcomes env (elems repos) (snd (fetchRepositories env s))"
  let ?ps = "zip (elems repos) ?outs"
  let ?out = "extend NilSlice (concat (map block ?ps))"
  have g: "fst (getGitHistory env s) = JSON 200 (Commits ?out)"
    using getGitHistory_listed [OF assms(1)] assms(2) by (simp add: StatusOK_def)
  have l: "length ?outs = length (elems repos)"
    using assms(2) by (rule length_commitOutcomes)
  have e: "elems ?out = concat (map block ?ps)"
    by simp
  have c: "\<forall>i < length (elems repos).
      elems ?out = concat (map block (take i ?ps)) @
        block (elems repos ! i, ?outs ! i) @ concat (map block (drop (Suc i) ?ps))"
  proof (intro allI impI)
    fix i assume i: "i < length (elems repos)"
    then have "i < length ?ps" using l by simp
    then have "?ps = take i ?ps @ ?ps ! i # drop (Suc i) ?ps"
      by (rule id_take_nth_drop)
    then have "concat (map block ?ps) =
        concat (map block (take i ?ps @ ?ps ! i # drop (Suc i) ?ps))"
      by simp
    also have "\<dots> = concat (map block (take i ?ps)) @ block (?ps ! i) @
        concat (map block (drop (Suc i) ?ps))"
      by simp
    also have "?ps ! i = (elems repos ! i, ?outs ! i)"
      using i l by simp
    finally show "elems ?out = concat (map block (take i ?ps)) @
        block (elems repos ! i, ?outs ! i) @ concat (map block (drop (Suc i) ?ps))"
      using e by simp
  qed
  have b: "\<forall>repo outcome. block (repo, outcome) = map (entryOf repo) (returnedCommits outcome)"
    by (simp add: block_def)
  from g l e c b show ?thesis by (intro exI [of _ ?out] conjI)
qed

text \<open>
  \<^verbatim>\<open>b\<close> listed before \<^verbatim>\<open>a\<close>, two commits each: the output is the two entries of \<^verbatim>\<open>b\<close>,
  then the two of \<^verbatim>\<open>a\<close>, each pair as returned, which is not the order of the names
  and not an order of the times.
\<close>

theorem output_order_witness:
  "fst (fetchRepositories orderEnv start) = Inr (Slice [repoB, repoA]) \<and>
   commitOutcomes orderEnv [repoB, repoA] (snd (fetchRepositories orderEnv start))
     = [Inr (Slice [bNew, bOld]), Inr (Slice [aNew, aOld])] \<and>
   shasLongEnough [Inr (Slice [bNew, bOld]), Inr (Slice [aNew, aOld])] \<and>
   (\<exists>out. fst (getGitHistory orderEnv start) = JSON 200 (Commits out) \<and>
      elems out = [entryOf repoB bNew, entryOf repoB bOld, entryOf repoA aNew, entryOf repoA aOld] \<and>
      map RepositoryName (elems out) = [''b'', ''b'', ''a'', ''a''] \<and>
      map CommitMessage (elems out) = [''b new'', ''b old'', ''a new'', ''a old''] \<and>
      map CommitTime (elems out) =
        [Time 3000000000, Time 1000000000, Time 4000000000, Time 2000000000])"
proof -
  have f: "fst (fetchRepositories orderEnv start) = Inr (Slice [repoB, repoA])"
    by (simp add: orderEnv_def order_defs stub_defs run_defs)
  have o: "commitOutcomes orderEnv [repoB, repoA] (snd (fetchRepositories orderEnv start))
     = [Inr (Slice [bNew, bOld]), Inr (Slice [aNew, aOld])]"
    by (simp add: orderEnv_def order_defs stub_defs run_defs)
  have l: "shasLongEnough [Inr (Slice [bNew, bOld]), Inr (Slice [aNew, aOld])]"
    by (simp add: order_defs)
  have p: "shasLongEnough
     (commitOutcomes orderEnv (elems (Slice [repoB, repoA]))
        (snd (fetchRepositories orderEnv start)))"
    unfolding elems.simps o by (rule l)
  from output_order [OF f p] obtain out where
    g: "fst (getGitHistory orderEnv start) = JSON 200 (Commits out)" and
    e: "elems out = concat (map block (zip (elems (Slice [repoB, repoA]))
         (commitOutcomes orderEnv (elems (Slice [repoB, repoA]))
            (snd (fetchRepositories orderEnv start)))))"
    by blast
  from e have e': "elems out =
      [entryOf repoB bNew, entryOf repoB bOld, entryOf repoA aNew, entryOf repoA aOld]"
    unfolding elems.simps o by simp
  have n: "map RepositoryName (elems out) = [''b'', ''b'', ''a'', ''a'']"
    by (simp add: e' entryOf_def repoA_def repoB_def)
  have m: "map CommitMessage (elems out) = [''b new'', ''b old'', ''a new'', ''a old'']"
    by (simp add: e' entryOf_def order_defs)
  have t: "map CommitTime (elems out) =
      [Time 3000000000, Time 1000000000, Time 4000000000, Time 2000000000]"
    by (simp add: e' entryOf_def order_defs)
  from g e' n m t have "\<exists>out. fst (getGitHistory orderEnv start) = JSON 200 (Commits out) \<and>
      elems out = [entryOf repoB bNew, entryOf repoB bOld, entryOf repoA aNew, entryOf repoA aOld] \<and>
      map RepositoryName (elems out) = [''b'', ''b'', ''a'', ''a''] \<and>
      map CommitMessage (elems out) = [''b new'', ''b old'', ''a new'', ''a old''] \<and>
      map CommitTime (elems out) =
        [Time 3000000000, Time 1000000000, Time 4000000000, Time 2000000000]"
    by (intro exI [of _ out] conjI)
  with f o l show ?thesis by (intro conjI)
qed

section \<open>Determinism\<close>

lemma marshalPayload_cong:
  "FormatTime env1 = FormatTime env2 \<Longrightarrow> marshalPayload env1 p = marshalPayload env2 p"
proof (cases p)
  case (H kvs)
  then show ?thesis by simp
next
  case (Commits xs)
  assume "FormatTime env1 = FormatTime env2"
  with Commits show ?thesis by (cases xs) (simp_all add: marshalCommitHistory_def)
qed

lemma serve_cong:
  assumes "fst (getGitHistory env1 s1) = fst (getGitHistory env2 s2)"
  shows "code (fst (serveGitHistory env1 s1)) = code (fst (serveGitHistory env2 s2))"
    and "FormatTime env1 = FormatTime env2 \<Longrightarrow>
           fst (serveGitHistory env1 s1) = fst (serveGitHistory env2 s2)"
proof -
  show c: "code (fst (serveGitHistory env1 s1)) = code (fst (serveGitHistory env2 s2))"
    by (simp add: serve_code assms)
  assume f: "FormatTime env1 = FormatTime env2"
  have "content (fst (serveGitHistory env1 s1)) = content (fst (serveGitHistory env2 s2))"
    by (simp add: serve_content assms marshalPayload_cong [OF f] split: reply.splits)
  with c show "fst (serveGitHistory env1 s1) = fst (serveGitHistory env2 s2)"
    by simp
qed

text \<open>
  Claim C10: take two runs of the handler, in any two environments and states, in
  which the listing call has the same outcome and the commit calls, one after the
  other, have the same outcomes (the same decoded value, or the same error). Then the
  handler gives the same reply, status and collection, and the endpoint the same
  status; the bodies are the same JSON values as soon as times are written the same
  way. The worlds, the requests already made and what was printed play no part.
\<close>

theorem same_outcomes_same_answer:
  fixes env1 :: "'a env" and env2 :: "'b env"
  assumes "fst (fetchRepositories env1 s1) = fst (fetchRepositories env2 s2)"
      and "\<forall>repos. fst (fetchRepositories env1 s1) = Inr repos \<longrightarrow>
             commitOutcomes env1 (elems repos) (snd (fetchRepositories env1 s1)) =
             commitOutcomes env2 (elems repos) (snd (fetchRepositories env2 s2))"
  shows "fst (getGitHistory env1 s1) = fst (getGitHistory env2 s2) \<and>
         code (fst (serveGitHistory env1 s1)) = code (fst (serveGitHistory env2 s2)) \<and>
         (FormatTime env1 = FormatTime env2 \<longrightarrow>
            fst (serveGitHistory env1 s1) = fst (serveGitHistory env2 s2))"
proof -
  have g: "fst (getGitHistory env1 s1) = fst (getGitHistory env2 s2)"
  proof (cases "fst (fetchRepositories env1 s1)")
    case (Inl err)
    then have "fst (fetchRepositories env2 s2) = Inl err" using assms(1) by simp
    with Inl show ?thesis by (simp add: getGitHistory_failed)
  next
    case (Inr repos)
    then have r: "fst (fetchRepositories env2 s2) = Inr repos" using assms(1) by simp
    have "commitOutcomes env1 (elems repos) (snd (fetchRepositories env1 s1)) =
          commitOutcomes env2 (elems repos) (snd (fetchRepositories env2 s2))"
      using assms(2) Inr by blast
    then show ?thesis
      by (simp add: getGitHistory_listed [OF Inr] getGitHistory_listed [OF r])
  qed
  with serve_cong [OF g] show ?thesis by blast
qed

text \<open>The scenario of the specification behind two different worlds, started in two
  different states.\<close>

theorem same_outcomes_same_answer_witness:
  "fst (fetchRepositories scenarioEnv start) = Inr (Slice [repoA, repoB]) \<and>
   fst (fetchRepositories scenarioEnv' start') = Inr (Slice [repoA, repoB]) \<and>
   commitOutcomes scenarioEnv [repoA, repoB] (snd (fetchRepositories scenarioEnv start))
     = [Inr (Slice [initCommit]), Inl notFoundError] \<and>
   commitOutcomes scenarioEnv' [repoA, repoB] (snd (fetchRepositories scenarioEnv' start'))
     = [Inr (Slice [initCommit]), Inl notFoundError] \<and>
   fst (getGitHistory scenarioEnv start) = fst (getGitHistory scenarioEnv' start') \<and>
   fst (serveGitHistory scenarioEnv start) = fst (serveGitHistory scenarioEnv' start')"
proof -
  have f: "fst (fetchRepositories scenarioEnv start) = Inr (Slice [repoA, repoB])"
    by (simp add: scenarioEnv_def twoReposText_def twoReposValue_def oneCommitText_def
          repoA_def repoB_def stub_defs run_defs)
  have f': "fst (fetchRepositories scenarioEnv' start') = Inr (Slice [repoA, repoB])"
    by (simp add: scenarioEnv'_def start'_def twoReposText'_def twoReposValue'_def
          oneCommitText_def repoA_def repoB_def stub_defs run_defs)
  have o: "commitOutcomes scenarioEnv [repoA, repoB] (snd (fetchRepositories scenarioEnv start))
     = [Inr (Slice [initCommit]), Inl notFoundError]"
    by (simp add: scenarioEnv_def twoReposText_def twoReposValue_def oneCommitText_def
          oneCommitValue_def initCommit_def notFoundError_def repoA_def repoB_def
          stub_defs run_defs)
  have o': "commitOutcomes scenarioEnv' [repoA, repoB]
       (snd (fetchRepositories scenarioEnv' start'))
     = [Inr (Slice [initCommit]), Inl notFoundError]"
    by (simp add: scenarioEnv'_def start'_def twoReposText'_def twoReposValue'_def
          oneCommitText_def oneCommitValue_def initCommit_def notFoundError_def repoA_def
          repoB_def stub_defs run_defs)
  have t: "FormatTime scenarioEnv = FormatTime scenarioEnv'"
    by (simp add: scenarioEnv_def scenarioEnv'_def stubEnv_def)
  have a: "fst (fetchRepositories scenarioEnv start) = fst (fetchRepositories scenarioEnv' start')"
    using f f' by simp
  have b: "\<forall>repos. fst (fetchRepositories scenarioEnv start) = Inr repos \<longrightarrow>
             commitOutcomes scenarioEnv (elems repos) (snd (fetchRepositories scenarioEnv start)) =
             commitOutcomes scenarioEnv' (elems repos) (snd (fetchRepositories scenarioEnv' start'))"
    using f o o' by auto
  from same_outcomes_same_answer [OF a b] t f f' o o' show ?thesis by blast
qed

section \<open>Absent and unknown members\<close>

lemma unknown_repository_member_skipped:
  "\<not> keyMatches ''name'' k \<Longrightarrow> \<not> keyMatches ''full_name'' k \<Longrightarrow>
   \<not> keyMatches ''description'' k \<Longrightarrow> \<not> keyMatches ''html_url'' k \<Longrightarrow>
     storeRepositoryField env (k, x) racc = Inr racc"
  by (cases racc) simp

lemma unknown_commit_member_skipped:
  "\<not> keyMatches ''sha'' k \<Longrightarrow> \<not> keyMatches ''commit'' k \<Longrightarrow> \<not> keyMatches ''html_url'' k \<Longrightarrow>
     storeCommitField env (k, x) cacc = Inr cacc"
  by (cases cacc) simp

text \<open>
  Claim C9. For a body whose first JSON value is \<open>v\<close>, the listing (the commit list)
  decodes without an error exactly when \<open>v\<close> fits a slice of \<^verbatim>\<open>Repository\<close> (of \<^verbatim>\<open>Commit\<close>);
  fitting asks nothing of a member whose key matches no tag and asks for no member to
  be there, so neither an unknown nor an absent member is an error, and a JSON array of
  objects with members of the expected kinds always decodes. A repository or commit
  object without a member for a field decodes with the zero value of that field (the
  empty string, the zero time), a nested object without one leaves the field as it was,
  and a member with an unknown key changes nothing. In particular a listing of empty
  objects decodes to as many repositories with empty names.
\<close>

theorem decoding_tolerates_absent_and_unknown_members:
  "(ReadValue env body = Inr v \<longrightarrow>
      ((\<exists>repos. decodeRepositories env body = Inr repos) = fitsSlice fitsRepository v) \<and>
      ((\<exists>commits. decodeCommits env body = Inr commits) = fitsSlice (fitsCommit env) v)) \<and>
   (unmarshalRepository env (JObject kvs) (zeroRepository, None) = Inr (r, sv) \<longrightarrow>
      (\<not> hasMember ''name'' kvs \<longrightarrow> Repository.Name r = []) \<and>
      (\<not> hasMember ''full_name'' kvs \<longrightarrow> FullName r = []) \<and>
      (\<not> hasMember ''description'' kvs \<longrightarrow> Description r = []) \<and>
      (\<not> hasMember ''html_url'' kvs \<longrightarrow> Repository.HTMLURL r = [])) \<and>
   (unmarshalCommit env (JObject kvs') (zeroCommit, None) = Inr (c, sv') \<longrightarrow>
      (\<not> hasMember ''sha'' kvs' \<longrightarrow> SHA c = []) \<and>
      (\<not> hasMember ''html_url'' kvs' \<longrightarrow> Commit.HTMLURL c = []) \<and>
      (\<not> hasMember ''commit'' kvs' \<longrightarrow>
         Message (Commit c) = [] \<and> Date (Author (Commit c)) = zeroTime \<and>
         Commit_Commit_Author.Name (Author (Commit c)) = [] \<and> Email (Author (Commit c)) = [])) \<and>
   (unmarshalCommitCommit env (JObject m) (cc0, sv0) = Inr (cc, sv1) \<longrightarrow>
      (\<not> hasMember ''message'' m \<longrightarrow> Message cc = Message cc0) \<and>
      (\<not> hasMember ''author'' m \<longrightarrow> Author cc = Author cc0)) \<and>
   (unmarshalAuthor env (JObject n) (a0, sv2) = Inr (a, sv3) \<longrightarrow>
      (\<not> hasMember ''name'' n \<longrightarrow> Commit_Commit_Author.Name a = Commit_Commit_Author.Name a0) \<and>
      (\<not> hasMember ''email'' n \<longrightarrow> Email a = Email a0) \<and>
      (\<not> hasMember ''date'' n \<longrightarrow> Date a = Date a0)) \<and>
   (\<not> keyMatches ''name'' k \<and> \<not> keyMatches ''full_name'' k \<and>
    \<not> keyMatches ''description'' k \<and> \<not> keyMatches ''html_url'' k \<longrightarrow>
      storeRepositoryField env (k, x) racc = Inr racc) \<and>
   (\<not> keyMatches ''sha'' k' \<and> \<not> keyMatches ''commit'' k' \<and> \<not> keyMatches ''html_url'' k' \<longrightarrow>
      storeCommitField env (k', x') cacc = Inr cacc) \<and>
   (ReadValue env body' = Inr (JArray (replicate count (JObject []))) \<longrightarrow>
      decodeRepositories env body' = Inr (Slice (replicate count zeroRepository)) \<and>
      Repository.Name zeroRepository = [])"
proof (intro conjI impI)
  assume "ReadValue env body = Inr v"
  then show "(\<exists>repos. decodeRepositories env body = Inr repos) = fitsSlice fitsRepository v"
        and "(\<exists>commits. decodeCommits env body = Inr commits) = fitsSlice (fitsCommit env) v"
    by (rule decodeRepositories_ok, rule decodeCommits_ok)
next
  assume u: "unmarshalRepository env (JObject kvs) (zeroRepository, None) = Inr (r, sv)"
  show "\<not> hasMember ''name'' kvs \<Longrightarrow> Repository.Name r = []"
    using unmarshalRepository_keeps(1) [OF u] by (simp add: zeroRepository_def)
  show "\<not> hasMember ''full_name'' kvs \<Longrightarrow> FullName r = []"
    using unmarshalRepository_keeps(2) [OF u] by (simp add: zeroRepository_def)
  show "\<not> hasMember ''description'' kvs \<Longrightarrow> Description r = []"
    using unmarshalRepository_keeps(3) [OF u] by (simp add: zeroRepository_def)
  show "\<not> hasMember ''html_url'' kvs \<Longrightarrow> Repository.HTMLURL r = []"
    using unmarshalRepository_keeps(4) [OF u] by (simp add: zeroRepository_def)
next
  assume u: "unmarshalCommit env (JObject kvs') (zeroCommit, None) = Inr (c, sv')"
  show "\<not> hasMember ''sha'' kvs' \<Longrightarrow> SHA c = []"
    using unmarshalCommit_keeps(1) [OF u] by (simp add: zeroCommit_def)
  show "\<not> hasMember ''html_url'' kvs' \<Longrightarrow> Commit.HTMLURL c = []"
    using unmarshalCommit_keeps(3) [OF u] by (simp add: zeroCommit_def)
  assume "\<not> hasMember ''commit'' kvs'"
  then have z: "Commit c = \<lparr>Message = [], Author = zeroAuthor\<rparr>"
    using unmarshalCommit_keeps(2) [OF u] by (simp add: zeroCommit_def)
  show "Message (Commit c) = []" by (simp add: z)
  show "Date (Author (Commit c)) = zeroTime" by (simp add: z zeroAuthor_def)
  show "Commit_Commit_Author.Name (Author (Commit c)) = []" by (simp add: z zeroAuthor_def)
  show "Email (Author (Commit c)) = []" by (simp add: z zeroAuthor_def)
next
  assume u: "unmarshalCommitCommit env (JObject m) (cc0, sv0) = Inr (cc, sv1)"
  show "\<not> hasMember ''message'' m \<Longrightarrow> Message cc = Message cc0"
    by (rule unmarshalCommitCommit_keeps(1) [OF u])
  show "\<not> hasMember ''author'' m \<Longrightarrow> Author cc = Author cc0"
    by (rule unmarshalCommitCommit_keeps(2) [OF u])
next
  assume u: "unmarshalAuthor env (JObject n) (a0, sv2) = Inr (a, sv3)"
  show "\<not> hasMember ''name'' n \<Longrightarrow> Commit_Commit_Author.Name a = Commit_Commit_Author.Name a0"
    by (rule unmarshalAuthor_keeps(1) [OF u])
  show "\<not> hasMember ''email'' n \<Longrightarrow> Email a = Email a0"
    by (rule unmarshalAuthor_keeps(2) [OF u])
  show "\<not> hasMember ''date'' n \<Longrightarrow> Date a = Date a0"
    by (rule unmarshalAuthor_keeps(3) [OF u])
next
  assume "\<not> keyMatches ''name'' k \<and> \<not> keyMatches ''full_name'' k \<and>
    \<not> keyMatches ''description'' k \<and> \<not> keyMatches ''html_url'' k"
  then show "storeRepositoryField env (k, x) racc = Inr racc"
    by (simp add: unknown_repository_member_skipped)
next
  assume "\<not> keyMatches ''sha'' k' \<and> \<not> keyMatches ''commit'' k' \<and> \<not> keyMatches ''html_url'' k'"
  then show "storeCommitField env (k', x') cacc = Inr cacc"
    by (simp add: unknown_commit_member_skipped)
next
  assume "ReadValue env body' = Inr (JArray (replicate count (JObject [])))"
  then show "decodeRepositories env body' = Inr (Slice (replicate count zeroRepository))"
    by (rule decode_empty_objects)
next
  show "Repository.Name zeroRepository = []" by (simp add: zeroRepository_def)
qed


text \<open>
  The listing of two repositories decodes as repositories and, all its members being
  unknown there, as two zero commits; objects with unknown members only decode to the
  zero values; two empty objects decode to two zero repositories; and a date that is no
  time does not fit and is a decode error.
\<close>

theorem decoding_tolerates_absent_and_unknown_members_witness:
  "ReadValue decodeEnv twoReposText = Inr twoReposValue \<and>
   fitsSlice fitsRepository twoReposValue \<and>
   decodeRepositories decodeEnv twoReposText = Inr (Slice [repoA, repoB]) \<and>
   fitsSlice (fitsCommit decodeEnv) twoReposValue \<and>
   decodeCommits decodeEnv twoReposText = Inr (Slice [zeroCommit, zeroCommit]) \<and>
   \<not> hasMember ''name'' [(''id'', JNumber ''1'')] \<and>
   \<not> hasMember ''full_name'' [(''id'', JNumber ''1'')] \<and>
   \<not> hasMember ''description'' [(''id'', JNumber ''1'')] \<and>
   \<not> hasMember ''html_url'' [(''id'', JNumber ''1'')] \<and>
   unmarshalRepository decodeEnv (JObject [(''id'', JNumber ''1'')]) (zeroRepository, None)
     = Inr (zeroRepository, None) \<and>
   \<not> hasMember ''sha'' [(''id'', JNumber ''1'')] \<and>
   \<not> hasMember ''commit'' [(''id'', JNumber ''1'')] \<and>
   unmarshalCommit decodeEnv (JObject [(''id'', JNumber ''1'')]) (zeroCommit, None)
     = Inr (zeroCommit, None) \<and>
   \<not> hasMember ''message'' [(''tree'', JObject [])] \<and>
   \<not> hasMember ''author'' [(''tree'', JObject [])] \<and>
   unmarshalCommitCommit decodeEnv (JObject [(''tree'', JObject [])]) (Commit initCommit, None)
     = Inr (Commit initCommit, None) \<and>
   \<not> hasMember ''name'' [(''login'', JString ''u'')] \<and>
   \<not> hasMember ''email'' [(''login'', JString ''u'')] \<and>
   \<not> hasMember ''date'' [(''login'', JString ''u'')] \<and>
   unmarshalAuthor decodeEnv (JObject [(''login'', JString ''u'')]) (zeroAuthor, None)
     = Inr (zeroAuthor, None) \<and>
   ReadValue decodeEnv ''[{},{}]'' = Inr (JArray (replicate 2 (JObject []))) \<and>
   decodeRepositories decodeEnv ''[{},{}]'' = Inr (Slice [zeroRepository, zeroRepository]) \<and>
   ReadValue decodeEnv badDateText = Inr badDateValue \<and>
   \<not> fitsSlice (fitsCommit decodeEnv) badDateValue \<and>
   decodeCommits decodeEnv badDateText = Inl (GoError ''cannot parse time'')"
proof -
  note t = decoding_tolerates_absent_and_unknown_members
    [where env = decodeEnv and body = twoReposText and v = twoReposValue
       and kvs = "[(''id'', JNumber ''1'')]" and r = zeroRepository and sv = None
       and kvs' = "[(''id'', JNumber ''1'')]" and c = zeroCommit and sv' = None
       and m = "[(''tree'', JObject [])]" and ?cc0.0 = "Commit initCommit" and ?sv0.0 = None
       and cc = "Commit initCommit" and ?sv1.0 = None
       and n = "[(''login'', JString ''u'')]" and ?a0.0 = zeroAuthor and ?sv2.0 = None
       and a = zeroAuthor and ?sv3.0 = None
       and k = "''id''" and k' = "''id''" and x = "JNumber ''1''" and x' = "JNumber ''1''"
       and racc = "(zeroRepository, None)" and cacc = "(zeroCommit, None)"
       and body' = "''[{},{}]''" and count = 2]
  have rv: "ReadValue decodeEnv twoReposText = Inr twoReposValue"
    by (simp add: decodeEnv_def stubEnv_def)
  have fr: "fitsSlice fitsRepository twoReposValue"
    by (simp add: twoReposValue_def fitsRepositoryMember_def)
  have fc: "fitsSlice (fitsCommit decodeEnv) twoReposValue"
    by (simp add: twoReposValue_def fitsCommitMember_def keyMatches_def toUpper_def)
  note t1 = t [THEN conjunct1, rule_format, OF rv]
  have "\<exists>repos. decodeRepositories decodeEnv twoReposText = Inr repos"
    using t1 [THEN conjunct1] fr by (simp only:)
  have dr: "decodeRepositories decodeEnv twoReposText = Inr (Slice [repoA, repoB])"
    by (simp add: decodeEnv_def twoReposText_def twoReposValue_def repoA_def repoB_def
          badDateText_def stub_defs run_defs)
  have dc: "decodeCommits decodeEnv twoReposText = Inr (Slice [zeroCommit, zeroCommit])"
    by (simp add: decodeEnv_def twoReposText_def twoReposValue_def badDateText_def
          stubEnv_def decodeCommits_def Decode_def keyMatches_def toUpper_def)
  have h: "\<not> hasMember ''name'' [(''id'', JNumber ''1'')]"
          "\<not> hasMember ''full_name'' [(''id'', JNumber ''1'')]"
          "\<not> hasMember ''description'' [(''id'', JNumber ''1'')]"
          "\<not> hasMember ''html_url'' [(''id'', JNumber ''1'')]"
          "\<not> hasMember ''sha'' [(''id'', JNumber ''1'')]"
          "\<not> hasMember ''commit'' [(''id'', JNumber ''1'')]"
          "\<not> hasMember ''message'' [(''tree'', JObject [])]"
          "\<not> hasMember ''author'' [(''tree'', JObject [])]"
          "\<not> hasMember ''name'' [(''login'', JString ''u'')]"
          "\<not> hasMember ''email'' [(''login'', JString ''u'')]"
          "\<not> hasMember ''date'' [(''login'', JString ''u'')]"
    by (simp_all add: hasMember_def keyMatches_def toUpper_def)
  have k: "\<not> keyMatches ''name'' ''id'' \<and> \<not> keyMatches ''full_name'' ''id'' \<and>
           \<not> keyMatches ''description'' ''id'' \<and> \<not> keyMatches ''html_url'' ''id''"
          "\<not> keyMatches ''sha'' ''id'' \<and> \<not> keyMatches ''commit'' ''id'' \<and>
           \<not> keyMatches ''html_url'' ''id''"
    by (simp_all add: keyMatches_def toUpper_def)
  note t6 = t [THEN conjunct2, THEN conjunct2, THEN conjunct2, THEN conjunct2, THEN conjunct2]
  have sk: "storeRepositoryField decodeEnv (''id'', JNumber ''1'') (zeroRepository, None)
      = Inr (zeroRepository, None)"
      "storeCommitField decodeEnv (''id'', JNumber ''1'') (zeroCommit, None)
      = Inr (zeroCommit, None)"
    by (rule t6 [THEN conjunct1, rule_format, OF k(1)],
        rule t6 [THEN conjunct2, THEN conjunct1, rule_format, OF k(2)])
  have ur: "unmarshalRepository decodeEnv (JObject [(''id'', JNumber ''1'')]) (zeroRepository, None)
     = Inr (zeroRepository, None)"
    by (simp add: sk del: storeRepositoryField.simps)
  have uc: "unmarshalCommit decodeEnv (JObject [(''id'', JNumber ''1'')]) (zeroCommit, None)
     = Inr (zeroCommit, None)"
    by (simp add: sk del: storeCommitField.simps)
  have ucc: "unmarshalCommitCommit decodeEnv (JObject [(''tree'', JObject [])])
       (Commit initCommit, None) = Inr (Commit initCommit, None)"
    by (simp add: keyMatches_def toUpper_def)
  have ua: "unmarshalAuthor decodeEnv (JObject [(''login'', JString ''u'')]) (zeroAuthor, None)
     = Inr (zeroAuthor, None)"
    by (simp add: keyMatches_def toUpper_def)
  have re: "ReadValue decodeEnv ''[{},{}]'' = Inr (JArray (replicate 2 (JObject [])))"
    by (simp add: decodeEnv_def stubEnv_def twoReposText_def numeral_2_eq_2)
  have "decodeRepositories decodeEnv ''[{},{}]''
      = Inr (Slice (replicate 2 zeroRepository))"
    by (rule t6 [THEN conjunct2, THEN conjunct2, rule_format, OF re, THEN conjunct1])
  then have de: "decodeRepositories decodeEnv ''[{},{}]''
      = Inr (Slice [zeroRepository, zeroRepository])"
    by (simp add: numeral_2_eq_2)
  have rb: "ReadValue decodeEnv badDateText = Inr badDateValue"
    by (simp add: decodeEnv_def stubEnv_def twoReposText_def badDateText_def)
  have nb: "\<not> fitsSlice (fitsCommit decodeEnv) badDateValue"
    by (simp add: badDateValue_def fitsCommitMember_def fitsCommitCommitMember_def
          fitsAuthorMember_def keyMatches_def toUpper_def decodeEnv_def stubEnv_def)
  have db: "decodeCommits decodeEnv badDateText = Inl (GoError ''cannot parse time'')"
    by (simp add: decodeEnv_def twoReposText_def badDateText_def badDateValue_def
          stubEnv_def decodeCommits_def Decode_def keyMatches_def toUpper_def zeroCommit_def)
  show ?thesis
    by (intro conjI rv fr dr fc dc h ur uc ucc ua re de rb nb db)
qed

end
